theory Spec2Isabelle
  imports Complex_Main "HOL-Library.Stream"
begin

section \<open>JavaScript values and exceptions\<close>

text \<open>
  The dashboard works on untyped data: the body of an HTTP response is whatever
  \<^verbatim>\<open>JSON.parse\<close> produced, and the error handed to an interceptor is declared
  \<^verbatim>\<open>any\<close>. Such values are modelled by \<open>jsval\<close>. \<open>Undefined\<close> is the result of
  reading a property that is not there; it never occurs inside a parsed payload.
  A number is a finite double, taken as the real it denotes. An object is the list
  of its own properties in insertion order.
\<close>

datatype jsval =
    Undefined
  | Null
  | Bool bool
  | Num real
  | Str string
  | Arr "jsval list"
  | Obj "(string \<times> jsval) list"

text \<open>
  What a \<^verbatim>\<open>throw\<close> or a rejected promise carries: a \<^verbatim>\<open>TypeError\<close> raised by the
  engine, an \<^verbatim>\<open>Error\<close> built with \<^verbatim>\<open>new Error(message)\<close>, or any value passed
  to \<^verbatim>\<open>Promise.reject\<close>.
\<close>

datatype thrown =
    TypeError
  | Error string
  | Thrown jsval

section \<open>The mock tracking module (src/lib/api/tracking.ts)\<close>

subsection \<open>Types\<close>

record TrackingEvent =
  status :: string
  location :: string
  timestamp :: string
  description :: "string option"

record TrackingInfo =
  awbNumber :: string
  currentStatus :: string
  expectedDelivery :: string
  origin :: string
  destination :: string
  courier :: string
  events :: "TrackingEvent list"

subsection \<open>The host: dates, the clock, the random source\<close>

text \<open>
  \<^verbatim>\<open>new Date(ms).toLocaleString()\<close> and \<^verbatim>\<open>new Date(ms).toLocaleDateString()\<close>
  depend on the locale and the time zone of the browser. They are parameters of the
  model: a \<open>host\<close> maps an instant, in milliseconds since the epoch, to the string
  the browser prints for it.
\<close>

record host =
  toLocaleString :: "int \<Rightarrow> string"
  toLocaleDateString :: "int \<Rightarrow> string"

text \<open>
  \<^verbatim>\<open>Math.random()\<close> returns a double \<open>r\<close> with \<open>0 \<le> r < 1\<close>. Every such double
  is \<open>m / 2 ^ p\<close> for a significand \<open>m\<close> of at most 53 bits and an exponent
  \<open>p \<le> 1074\<close> (the smallest positive double is \<open>1 / 2 ^ 1074\<close>), with
  \<open>m < 2 ^ p\<close> as \<open>r < 1\<close>; conversely every such pair is a double below 1. The
  type \<open>random_double\<close> holds these pairs; \<open>double m p\<close> is the double
  \<open>m / 2 ^ p\<close>.
\<close>

typedef random_double = "{(m::nat, p::nat). m < 2 ^ 53 \<and> p \<le> 1074 \<and> m < 2 ^ p}"
  by (rule exI [of _ "(0, 0)"]) simp

setup_lifting type_definition_random_double

lift_definition significand :: "random_double \<Rightarrow> nat" is fst .

lift_definition exponent :: "random_double \<Rightarrow> nat" is snd .

lift_definition double :: "nat \<Rightarrow> nat \<Rightarrow> random_double"
  is "\<lambda>m p. if m < 2 ^ 53 \<and> p \<le> 1074 \<and> m < 2 ^ p then (m, p) else (0, 0)"
  by simp

text \<open>
  The product \<^verbatim>\<open>Math.random() * n\<close> of a double \<open>m / 2 ^ p\<close> and a small whole
  number \<open>n\<close> is the exact product \<open>M / 2 ^ p\<close>, \<open>M = m * n\<close>, rounded to the
  nearest double, a tie going to the even significand. \<open>excessBits M\<close> is the number
  \<open>s\<close> of low bits that \<open>M\<close> has beyond 53, and \<open>roundHalfEven M s\<close> is
  \<open>M / 2 ^ s\<close> rounded to a whole number in that way. The rounded product is
  \<open>k / 2 ^ p\<close> for the \<open>k\<close> that \<open>times_double\<close> returns with \<open>p\<close>. (With
  \<open>p \<le> 1074\<close> the result never has fewer than 53 bits of precision when \<open>s > 0\<close>,
  and a product in the subnormal range has \<open>s = 0\<close> and is exact.)
\<close>

function excessBits :: "nat \<Rightarrow> nat" where
  "excessBits M = (if M < 2 ^ 53 then 0 else Suc (excessBits (M div 2)))"
  by pat_completeness auto
termination
  by (relation "measure (\<lambda>M. M)") auto

declare excessBits.simps [simp del]

definition roundHalfEven :: "nat \<Rightarrow> nat \<Rightarrow> nat" where
  "roundHalfEven M s =
    (let q = M div 2 ^ s; rest = 2 * (M mod 2 ^ s)
     in if rest < 2 ^ s then q
        else if 2 ^ s < rest then q + 1
        else if even q then q else q + 1)"

definition times_double :: "random_double \<Rightarrow> nat \<Rightarrow> nat \<times> nat" where
  "times_double r n =
    (let M = significand r * n; s = excessBits M
     in (roundHalfEven M s * 2 ^ s, exponent r))"

text \<open>\<^verbatim>\<open>Math.floor\<close> of the non-negative double \<open>k / 2 ^ p\<close>.\<close>

definition Math_floor :: "nat \<times> nat \<Rightarrow> nat" where
  "Math_floor x = fst x div 2 ^ snd x"

text \<open>
  \<^verbatim>\<open>Math.floor(Math.random() * n)\<close>, for the result \<open>r\<close> of the call to
  \<^verbatim>\<open>Math.random\<close>: the product is rounded to a double before the floor is taken.
\<close>

definition floorRandom :: "nat \<Rightarrow> random_double \<Rightarrow> nat" where
  "floorRandom n r = Math_floor (times_double r n)"

text \<open>
  What the code does besides computing values: it arms a timer and awaits it, and it
  writes to the console.
\<close>

datatype effect =
    SetTimeout nat
  | ConsoleError string thrown

text \<open>
  The world a call runs in: the results of the calls to \<^verbatim>\<open>Math.random()\<close> and to
  \<^verbatim>\<open>Date.now()\<close> still to come, in the order of the calls, and the effects so far,
  oldest first. A clock reading is a whole number of milliseconds; a time value is at
  most 8.64e15 in size, below \<open>2 ^ 53\<close>, so the sums and differences that the code
  forms with it are exact in doubles and are computed on integers here.
\<close>

record world =
  mathRandom :: "random_double stream"
  dateNow :: "int stream"
  effects :: "effect list"

definition Math_random :: "world \<Rightarrow> random_double \<times> world" where
  "Math_random w = (shd (mathRandom w), w\<lparr>mathRandom := stl (mathRandom w)\<rparr>)"

definition Date_now :: "world \<Rightarrow> int \<times> world" where
  "Date_now w = (shd (dateNow w), w\<lparr>dateNow := stl (dateNow w)\<rparr>)"

definition setTimeout :: "nat \<Rightarrow> world \<Rightarrow> world" where
  "setTimeout ms w = w\<lparr>effects := effects w @ [SetTimeout ms]\<rparr>"

definition console_error :: "string \<Rightarrow> thrown \<Rightarrow> world \<Rightarrow> world" where
  "console_error msg e w = w\<lparr>effects := effects w @ [ConsoleError msg e]\<rparr>"

subsection \<open>dummyTrackingData\<close>

text \<open>
  The table is a module-level constant: its object literal is evaluated once, when the
  module is loaded, and each \<^verbatim>\<open>Date.now()\<close> in it is a call of its own. \<open>ld\<close> holds
  the results of these thirteen calls in the order of evaluation.
\<close>

definition dummyTrackingData :: "host \<Rightarrow> int stream \<Rightarrow> (string \<times> TrackingInfo) list" where
  "dummyTrackingData h ld =
    [(''1234567890'',
      \<lparr>awbNumber = ''1234567890'',
       currentStatus = ''In Transit'',
       expectedDelivery = toLocaleDateString h (ld !! 0 + 2 * 24 * 60 * 60 * 1000),
       origin = ''Mumbai, Maharashtra'',
       destination = ''Bangalore, Karnataka'',
       courier = ''RocketryBox Express'',
       events =
        [\<lparr>status = ''In Transit'',
          location = ''Hyderabad, Telangana'',
          timestamp = toLocaleString h (ld !! 1 - 12 * 60 * 60 * 1000),
          description = Some ''Shipment departed from transit facility''\<rparr>,
         \<lparr>status = ''In Transit'',
          location = ''Pune, Maharashtra'',
          timestamp = toLocaleString h (ld !! 2 - 24 * 60 * 60 * 1000),
          description = Some ''Shipment arrived at transit facility''\<rparr>,
         \<lparr>status = ''Shipped'',
          location = ''Mumbai, Maharashtra'',
          timestamp = toLocaleString h (ld !! 3 - 48 * 60 * 60 * 1000),
          description = Some ''Shipment picked up from sender''\<rparr>]\<rparr>),
     (''9876543210'',
      \<lparr>awbNumber = ''9876543210'',
       currentStatus = ''Delivered'',
       expectedDelivery = toLocaleDateString h (ld !! 4 - 1 * 24 * 60 * 60 * 1000),
       origin = ''Delhi, Delhi'',
       destination = ''Jaipur, Rajasthan'',
       courier = ''RocketryBox Premium'',
       events =
        [\<lparr>status = ''Delivered'',
          location = ''Jaipur, Rajasthan'',
          timestamp = toLocaleString h (ld !! 5 - 6 * 60 * 60 * 1000),
          description = Some ''Package delivered to recipient''\<rparr>,
         \<lparr>status = ''Out for Delivery'',
          location = ''Jaipur, Rajasthan'',
          timestamp = toLocaleString h (ld !! 6 - 12 * 60 * 60 * 1000),
          description = Some ''Package is out for delivery''\<rparr>,
         \<lparr>status = ''In Transit'',
          location = ''Gurugram, Haryana'',
          timestamp = toLocaleString h (ld !! 7 - 24 * 60 * 60 * 1000),
          description = Some ''Shipment in transit to destination''\<rparr>,
         \<lparr>status = ''Shipped'',
          location = ''Delhi, Delhi'',
          timestamp = toLocaleString h (ld !! 8 - 48 * 60 * 60 * 1000),
          description = Some ''Shipment picked up from sender''\<rparr>]\<rparr>),
     (''5678901234'',
      \<lparr>awbNumber = ''5678901234'',
       currentStatus = ''Out for Delivery'',
       expectedDelivery = toLocaleDateString h (ld !! 9),
       origin = ''Chennai, Tamil Nadu'',
       destination = ''Coimbatore, Tamil Nadu'',
       courier = ''RocketryBox Standard'',
       events =
        [\<lparr>status = ''Out for Delivery'',
          location = ''Coimbatore, Tamil Nadu'',
          timestamp = toLocaleString h (ld !! 10 - 4 * 60 * 60 * 1000),
          description = Some ''Package is out for delivery''\<rparr>,
         \<lparr>status = ''In Transit'',
          location = ''Salem, Tamil Nadu'',
          timestamp = toLocaleString h (ld !! 11 - 18 * 60 * 60 * 1000),
          description = Some ''Shipment in transit to destination''\<rparr>,
         \<lparr>status = ''Shipped'',
          location = ''Chennai, Tamil Nadu'',
          timestamp = toLocaleString h (ld !! 12 - 36 * 60 * 60 * 1000),
          description = Some ''Shipment picked up from sender''\<rparr>]\<rparr>)]"

subsection \<open>generateRandomTrackingInfo\<close>

record City =
  name :: string
  state :: string

definition cities :: "City list" where
  "cities =
    [\<lparr>name = ''Mumbai'', state = ''Maharashtra''\<rparr>,
     \<lparr>name = ''Delhi'', state = ''Delhi''\<rparr>,
     \<lparr>name = ''Bangalore'', state = ''Karnataka''\<rparr>,
     \<lparr>name = ''Hyderabad'', state = ''Telangana''\<rparr>,
     \<lparr>name = ''Chennai'', state = ''Tamil Nadu''\<rparr>,
     \<lparr>name = ''Kolkata'', state = ''West Bengal''\<rparr>,
     \<lparr>name = ''Ahmedabad'', state = ''Gujarat''\<rparr>,
     \<lparr>name = ''Pune'', state = ''Maharashtra''\<rparr>,
     \<lparr>name = ''Jaipur'', state = ''Rajasthan''\<rparr>,
     \<lparr>name = ''Lucknow'', state = ''Uttar Pradesh''\<rparr>]"

text \<open>The template literal \<^verbatim>\<open>`${c.name}, ${c.state}`\<close>.\<close>

definition cityState :: "City \<Rightarrow> string" where
  "cityState c = name c @ '', '' @ state c"

text \<open>
  The \<^verbatim>\<open>while (destIndex === originIndex)\<close> loop draws again until the two indices
  differ. Nothing in the code bounds the number of draws, so the loop is a partial
  function: \<open>None\<close> stands for a loop that never ends.
\<close>

partial_function (option) drawDestIndex :: "nat \<Rightarrow> nat \<Rightarrow> world \<Rightarrow> (nat \<times> world) option" where
  "drawDestIndex originIndex destIndex w =
    (if destIndex = originIndex
     then drawDestIndex originIndex
            (floorRandom (length cities) (fst (Math_random w))) (snd (Math_random w))
     else Some (destIndex, w))"

definition getRandomCity :: "world \<Rightarrow> City \<times> world" where
  "getRandomCity w =
    (let (r, w') = Math_random w;
         index = floorRandom (length cities) r
     in (cities ! index, w'))"

text \<open>
  The \<^verbatim>\<open>for (let i = 0; i < transitPoints; i++)\<close> loop, from a given \<open>i\<close>;
  \<^verbatim>\<open>unshift\<close> puts the new event in front.
\<close>

function transitLoop ::
  "host \<Rightarrow> int \<Rightarrow> nat \<Rightarrow> nat \<Rightarrow> TrackingEvent list \<Rightarrow> world \<Rightarrow> TrackingEvent list \<times> world" where
  "transitLoop h now i transitPoints evs w =
    (if i < transitPoints
     then (let (city, w') = getRandomCity w
           in transitLoop h now (i + 1) transitPoints
                (\<lparr>status = ''In Transit'',
                  location = cityState city,
                  timestamp = toLocaleString h (now - (24 - int i * 8) * 60 * 60 * 1000),
                  description = Some ''Shipment in transit to destination''\<rparr> # evs) w')
     else (evs, w))"
  by pat_completeness auto
termination
  by (relation "measure (\<lambda>(h, now, i, transitPoints, evs, w). transitPoints - i)") auto

declare transitLoop.simps [simp del]

definition generateRandomTrackingInfo ::
  "host \<Rightarrow> string \<Rightarrow> world \<Rightarrow> (TrackingInfo \<times> world) option" where
  "generateRandomTrackingInfo h awb w0 =
    (let (r1, w1) = Math_random w0;
         originIndex = floorRandom (length cities) r1;
         (r2, w2) = Math_random w1
     in case drawDestIndex originIndex (floorRandom (length cities) r2) w2 of
          None \<Rightarrow> None
        | Some (destIndex, w3) \<Rightarrow>
           (let origin = cities ! originIndex;
                destination = cities ! destIndex;
                (now, w4) = Date_now w3;
                evs = [\<lparr>status = ''Shipped'',
                        location = cityState origin,
                        timestamp = toLocaleString h (now - 48 * 60 * 60 * 1000),
                        description = Some ''Shipment picked up from sender''\<rparr>];
                (r3, w5) = Math_random w4;
                transitPoints = floorRandom 3 r3 + 1;
                (evs', w6) = transitLoop h now 0 transitPoints evs w5
            in Some (\<lparr>awbNumber = awb,
                      currentStatus = ''In Transit'',
                      expectedDelivery = toLocaleDateString h (now + 3 * 24 * 60 * 60 * 1000),
                      origin = cityState origin,
                      destination = cityState destination,
                      courier = ''RocketryBox Express'',
                      events = evs'\<rparr>, w6)))"

subsection \<open>fetchTrackingInfo\<close>

text \<open>
  The regular expression \<^verbatim>\<open>/^\d{10}$/\<close>. Without the \<^verbatim>\<open>u\<close> flag \<^verbatim>\<open>\d\<close> is one of
  the ten ASCII digits, and without the \<^verbatim>\<open>m\<close> flag \<^verbatim>\<open>^\<close> and \<^verbatim>\<open>$\<close> are the two
  ends of the input. \<open>digits n s\<close> matches \<^verbatim>\<open>\d{n}\<close> at the start of \<open>s\<close> and
  returns what is left of the input.
\<close>

definition isDigit :: "char \<Rightarrow> bool" where
  "isDigit c = (c \<in> set ''0123456789'')"

fun digits :: "nat \<Rightarrow> string \<Rightarrow> string option" where
  "digits 0 s = Some s"
| "digits (Suc n) [] = None"
| "digits (Suc n) (c # s) = (if isDigit c then digits n s else None)"

definition awbRegexTest :: "string \<Rightarrow> bool" where
  "awbRegexTest s = (digits 10 s = Some [])"

text \<open>
  The function awaits a timer of one second, checks the format, then reads the table
  and falls back on the generator. The \<^verbatim>\<open>catch\<close> clause logs what was thrown and
  throws it again; the only \<^verbatim>\<open>throw\<close> in the \<^verbatim>\<open>try\<close> block is the one of the
  format check. The result is \<open>None\<close> when the generator's loop never ends, and
  otherwise the settled promise (\<open>Inl\<close> rejected, \<open>Inr\<close> fulfilled) with the world
  after the call.
\<close>

definition fetchTrackingInfo ::
  "host \<Rightarrow> int stream \<Rightarrow> string \<Rightarrow> world \<Rightarrow> ((thrown + TrackingInfo) \<times> world) option" where
  "fetchTrackingInfo h ld awb w0 =
    (let w1 = setTimeout 1000 w0
     in if awb = [] \<or> \<not> awbRegexTest awb
        then (let e = Error ''Invalid AWB number. Please provide a 10-digit AWB number.''
              in Some (Inl e, console_error ''Error fetching tracking info:'' e w1))
        else (case map_of (dummyTrackingData h ld) awb of
                Some info \<Rightarrow> Some (Inr info, w1)
              | None \<Rightarrow>
                 (case generateRandomTrackingInfo h awb w1 of
                    None \<Rightarrow> None
                  | Some (info, w2) \<Rightarrow> Some (Inr info, w2))))"


section \<open>Reading untyped values\<close>

text \<open>
  The values that count as false in a condition: \<^verbatim>\<open>undefined\<close>, \<^verbatim>\<open>null\<close>,
  \<^verbatim>\<open>false\<close>, \<^verbatim>\<open>0\<close> and the empty string.
\<close>

fun truthy :: "jsval \<Rightarrow> bool" where
  "truthy Undefined = False"
| "truthy Null = False"
| "truthy (Bool b) = b"
| "truthy (Num x) = (x \<noteq> 0)"
| "truthy (Str s) = (s \<noteq> [])"
| "truthy (Arr xs) = True"
| "truthy (Obj ps) = True"

text \<open>\<^verbatim>\<open>a || b\<close>, for operands without effects.\<close>

definition js_or :: "jsval \<Rightarrow> jsval \<Rightarrow> jsval" where
  "js_or a b = (if truthy a then a else b)"

definition nullish :: "jsval \<Rightarrow> bool" where
  "nullish v = (v = Undefined \<or> v = Null)"

text \<open>
  The property \<open>p\<close> of a value that is neither \<^verbatim>\<open>undefined\<close> nor \<^verbatim>\<open>null\<close>. The
  names read by the code (\<^verbatim>\<open>awb\<close>, \<^verbatim>\<open>date\<close>, \<^verbatim>\<open>status\<close>, ...) are no
  built-in property of an object, an array, a string, a number or a boolean, so only
  an object can have them, as a property of its own.
\<close>

fun propOf :: "jsval \<Rightarrow> string \<Rightarrow> jsval" where
  "propOf (Obj ps) p = (case map_of ps p of Some v \<Rightarrow> v | None \<Rightarrow> Undefined)"
| "propOf v p = Undefined"

text \<open>\<^verbatim>\<open>v.p\<close>: reading a property of \<^verbatim>\<open>undefined\<close> or \<^verbatim>\<open>null\<close> throws.\<close>

definition getProp :: "jsval \<Rightarrow> string \<Rightarrow> thrown + jsval" where
  "getProp v p = (if nullish v then Inl TypeError else Inr (propOf v p))"

text \<open>\<^verbatim>\<open>v?.p\<close>: \<^verbatim>\<open>undefined\<close> instead of the exception.\<close>

definition optProp :: "jsval \<Rightarrow> string \<Rightarrow> jsval" where
  "optProp v p = (if nullish v then Undefined else propOf v p)"

text \<open>
  \<^verbatim>\<open>v[0]\<close>: the first element of an array, the first character of a string, the
  property \<^verbatim>\<open>"0"\<close> of an object.
\<close>

fun index0 :: "jsval \<Rightarrow> thrown + jsval" where
  "index0 Undefined = Inl TypeError"
| "index0 Null = Inl TypeError"
| "index0 (Arr xs) = Inr (case xs of [] \<Rightarrow> Undefined | x # _ \<Rightarrow> x)"
| "index0 (Str s) = Inr (case s of [] \<Rightarrow> Undefined | c # _ \<Rightarrow> Str [c])"
| "index0 (Obj ps) = Inr (propOf (Obj ps) ''0'')"
| "index0 v = Inr Undefined"

text \<open>Sequencing: the first exception ends the evaluation.\<close>

definition andThen :: "thrown + 'a \<Rightarrow> ('a \<Rightarrow> thrown + 'b) \<Rightarrow> thrown + 'b" where
  "andThen m f = (case m of Inl e \<Rightarrow> Inl e | Inr x \<Rightarrow> f x)"

fun mapThrowing :: "('a \<Rightarrow> thrown + 'b) \<Rightarrow> 'a list \<Rightarrow> thrown + 'b list" where
  "mapThrowing f [] = Inr []"
| "mapThrowing f (x # xs) =
    andThen (f x) (\<lambda>y. andThen (mapThrowing f xs) (\<lambda>ys. Inr (y # ys)))"

text \<open>
  \<^verbatim>\<open>v.map(f)\<close>. Only an array has a method \<^verbatim>\<open>map\<close>: a parsed payload holds no
  function, so on any other value the call throws.
\<close>

definition arrayMap :: "(jsval \<Rightarrow> thrown + 'b) \<Rightarrow> jsval \<Rightarrow> thrown + 'b list" where
  "arrayMap f v = (case v of Arr xs \<Rightarrow> mapThrowing f xs | _ \<Rightarrow> Inl TypeError)"

section \<open>The NDR details page: the view model built by fetchNDRDetails\<close>

text \<open>
  The interface \<^verbatim>\<open>NDRDetails\<close>. Its field types are erased when the program runs and
  the payload is \<^verbatim>\<open>any\<close>, so a field holds whatever value the transformation puts
  there. Field names used by an earlier record carry a suffix.
\<close>

record Coordinates =
  lat :: jsval
  lng :: jsval

record DeliveryAttempt =
  date :: jsval
  time :: jsval
  status_attempt :: jsval
  reason_attempt :: jsval
  comments :: jsval

record CustomerDetails =
  name_customer :: jsval
  address1 :: jsval
  address2 :: jsval
  city :: jsval
  state_customer :: jsval
  pincode :: jsval
  country :: jsval
  phone :: jsval
  email :: jsval

record NDRDetails =
  awb :: jsval
  orderNo :: jsval
  orderDate :: jsval
  courier_ndr :: jsval
  customer :: jsval
  attempts :: jsval
  lastAttemptDate :: jsval
  status_ndr :: jsval
  reason_ndr :: jsval
  action :: jsval
  currentLocation :: Coordinates
  deliveryAttempts :: "DeliveryAttempt list"
  customerDetails :: CustomerDetails
  products :: jsval

text \<open>
  The callback of \<^verbatim>\<open>attempt_history.map\<close>. Its first read, \<^verbatim>\<open>attempt.date\<close>,
  throws on \<^verbatim>\<open>null\<close>; after it the other reads cannot throw.
\<close>

definition attemptView :: "jsval \<Rightarrow> thrown + DeliveryAttempt" where
  "attemptView attempt =
    andThen (getProp attempt ''date'') (\<lambda>d.
      Inr \<lparr>date = d,
           time = propOf attempt ''time'',
           status_attempt = propOf attempt ''status'',
           reason_attempt = propOf attempt ''reason'',
           comments = js_or (propOf attempt ''agent_remarks'') (Str [])\<rparr>)"

text \<open>
  The argument of \<^verbatim>\<open>setNdrDetails\<close> (lines 94 to 128 of the page), for the parsed
  response body \<open>body\<close>; the fields of the object literal are evaluated from top to
  bottom. \<^verbatim>\<open>data.data.awb\<close> throws when \<^verbatim>\<open>data\<close> or \<^verbatim>\<open>data.data\<close> is
  \<^verbatim>\<open>undefined\<close> or \<^verbatim>\<open>null\<close>; when it does not, the later reads of
  \<^verbatim>\<open>data.data.x\<close> cannot throw, and likewise for
  \<^verbatim>\<open>data.data.delivery_address\<close> after its first read. The exception is caught by
  the page, which then sets no view model.
\<close>

definition ndrDetailsOf :: "jsval \<Rightarrow> thrown + NDRDetails" where
  "ndrDetailsOf body =
    andThen (getProp body ''data'') (\<lambda>d.
    andThen (getProp d ''awb'') (\<lambda>awb0.
    andThen (index0 (propOf d ''attempt_history'')) (\<lambda>first.
    andThen (arrayMap attemptView (propOf d ''attempt_history'')) (\<lambda>attemptViews.
    andThen (getProp (propOf d ''delivery_address'') ''fullName'') (\<lambda>fullName.
      Inr \<lparr>awb = awb0,
           orderNo = propOf d ''order_id'',
           orderDate = propOf d ''order_date'',
           courier_ndr = propOf d ''courier_name'',
           customer = propOf d ''customer_name'',
           attempts = propOf d ''attempts'',
           lastAttemptDate = js_or (optProp first ''date'') (Str ''-''),
           status_ndr = propOf d ''status'',
           reason_ndr = propOf d ''ndr_reason'',
           action = propOf d ''recommended_action'',
           currentLocation =
             \<lparr>lat = js_or (optProp (propOf d ''current_location'') ''lat'') (Num 0),
              lng = js_or (optProp (propOf d ''current_location'') ''lng'') (Num 0)\<rparr>,
           deliveryAttempts = attemptViews,
           customerDetails =
             \<lparr>name_customer = fullName,
              address1 = propOf (propOf d ''delivery_address'') ''addressLine1'',
              address2 = js_or (propOf (propOf d ''delivery_address'') ''addressLine2'') (Str []),
              city = propOf (propOf d ''delivery_address'') ''city'',
              state_customer = propOf (propOf d ''delivery_address'') ''state'',
              pincode = propOf (propOf d ''delivery_address'') ''pincode'',
              country = Str ''India'',
              phone = propOf (propOf d ''delivery_address'') ''contactNumber'',
              email = js_or (propOf (propOf d ''delivery_address'') ''email'') (Str [])\<rparr>,
           products = js_or (propOf d ''products'') (Arr [])\<rparr>)))))"

section \<open>The API client (src/services/api/index.ts)\<close>

text \<open>
  What the interceptors touch in the browser: the local storage, and the address that
  was last assigned to \<^verbatim>\<open>window.location.href\<close> (\<open>None\<close> when nothing was
  assigned; an assignment makes the browser navigate there).
\<close>

record browser =
  localStorage :: "string \<rightharpoonup> string"
  location_href :: "string option"

definition removeItem :: "string \<Rightarrow> browser \<Rightarrow> browser" where
  "removeItem key b = b\<lparr>localStorage := (localStorage b)(key := None)\<rparr>"

text \<open>
  The two handlers of \<^verbatim>\<open>api.interceptors.response.use\<close>. The result is the settled
  promise (\<open>Inl\<close> rejected, \<open>Inr\<close> fulfilled) and the browser afterwards. The
  comparison \<^verbatim>\<open>=== 401\<close> holds for the number 401 only.
\<close>

definition responseFulfilled :: "jsval \<Rightarrow> thrown + jsval" where
  "responseFulfilled response = getProp response ''data''"

definition responseRejected :: "jsval \<Rightarrow> browser \<Rightarrow> (thrown + jsval) \<times> browser" where
  "responseRejected error b =
    (case getProp error ''response'' of
       Inl e \<Rightarrow> (Inl e, b)
     | Inr response \<Rightarrow>
        (let b' = (if optProp response ''status'' = Num 401
                   then (removeItem ''auth_token'' b)\<lparr>location_href := Some ''/login''\<rparr>
                   else b)
         in (Inl (Thrown error), b')))"

section \<open>Sample inputs\<close>

text \<open>
  A host that prints an instant as its number of seconds, and a date as its number of
  days, in decimal digits.
\<close>

fun decimalNat :: "nat \<Rightarrow> string" where
  "decimalNat n =
    (if n < 10 then [''0123456789'' ! n]
     else decimalNat (n div 10) @ [''0123456789'' ! (n mod 10)])"

declare decimalNat.simps [simp del]

definition decimalInt :: "int \<Rightarrow> string" where
  "decimalInt t = (if t < 0 then CHR ''-'' # decimalNat (nat (- t)) else decimalNat (nat t))"

definition sampleHost :: host where
  "sampleHost =
    \<lparr>toLocaleString = (\<lambda>t. decimalInt (t div 1000)),
     toLocaleDateString = (\<lambda>t. decimalInt (t div 86400000))\<rparr>"

text \<open>
  A world whose random source gives the doubles 0.1, 0.1, 0.7, 0.6666666666666666 and
  then 0 for ever, and whose clock stands at a fixed instant.
\<close>

definition sampleWorld :: "int \<Rightarrow> world" where
  "sampleWorld t =
    \<lparr>mathRandom =
       [double 7205759403792794 56, double 7205759403792794 56,
        double 3152519739159347 52, double 6004799503160661 53] @- sconst (double 0 0),
     dateNow = sconst t,
     effects = []\<rparr>"

text \<open>
  A response body with the given attempt history; it has no \<^verbatim>\<open>current_location\<close>,
  no \<^verbatim>\<open>addressLine2\<close> and no \<^verbatim>\<open>email\<close>.
\<close>

definition sampleBody :: "jsval list \<Rightarrow> jsval" where
  "sampleBody history =
    Obj [(''success'', Bool True),
         (''data'', Obj
           [(''awb'', Str ''4455667788''),
            (''order_id'', Str ''ORD-17''),
            (''order_date'', Str ''2024-03-01''),
            (''courier_name'', Str ''BlueDart''),
            (''customer_name'', Str ''Asha Rao''),
            (''attempts'', Num (real (length history))),
            (''attempt_history'', Arr history),
            (''status'', Str ''Action Required''),
            (''ndr_reason'', Str ''Customer Not Available''),
            (''recommended_action'', Str ''Reattempt''),
            (''delivery_address'', Obj
              [(''fullName'', Str ''Asha Rao''),
               (''addressLine1'', Str ''12 MG Road''),
               (''city'', Str ''Pune''),
               (''state'', Str ''Maharashtra''),
               (''pincode'', Str ''411001''),
               (''country'', Str ''Nepal''),
               (''contactNumber'', Str ''9000000000'')])])]"

definition sampleAttempt :: "string \<Rightarrow> jsval" where
  "sampleAttempt d =
    Obj [(''date'', Str d),
         (''time'', Str ''10:30''),
         (''status'', Str ''Failed''),
         (''reason'', Str ''Customer Not Available'')]"

definition sampleError :: "real \<Rightarrow> jsval" where
  "sampleError code =
    Obj [(''message'', Str ''Request failed''),
         (''response'', Obj [(''status'', Num code), (''data'', Null)])]"

definition sampleBrowser :: browser where
  "sampleBrowser =
    \<lparr>localStorage = [''auth_token'' \<mapsto> ''secret'', ''theme'' \<mapsto> ''dark''],
     location_href = None\<rparr>"

section \<open>Properties of the mock tracking module\<close>

subsection \<open>The random source: indices from rounded products\<close>

lemma random_double_bounds:
  "significand r < 2 ^ 53" "exponent r \<le> 1074" "significand r < 2 ^ exponent r"
  by (transfer, auto)+

lemma excessBits_fits: "M < 2 ^ 53 \<Longrightarrow> excessBits M = 0"
  by (subst excessBits.simps) simp

lemma excessBits_halve: "\<not> M < 2 ^ 53 \<Longrightarrow> excessBits M = Suc (excessBits (M div 2))"
  by (subst excessBits.simps) simp

lemma excessBits_Suc: "excessBits M = Suc t \<Longrightarrow> 2 ^ (53 + t) \<le> M"
proof (induction t arbitrary: M)
  case 0
  then show ?case
    by (cases "M < 2 ^ 53") (simp_all add: excessBits_fits)
next
  case (Suc t)
  from Suc.prems have "excessBits (M div 2) = Suc t"
    by (cases "M < 2 ^ 53") (simp_all add: excessBits_fits excessBits_halve)
  then have "2 ^ (53 + t) \<le> M div 2" by (rule Suc.IH)
  then have "2 * 2 ^ (53 + t) \<le> 2 * (M div 2)" by simp
  also have "\<dots> \<le> M" by simp
  finally have "2 * 2 ^ (53 + t) \<le> M" .
  moreover have "(2::nat) ^ (53 + Suc t) = 2 * 2 ^ (53 + t)"
    by (simp only: add_Suc_right power_Suc)
  ultimately show ?case by (simp only:)
qed

lemma roundHalfEven_0: "roundHalfEven M 0 = M"
  by (simp add: roundHalfEven_def)

text \<open>Rounding moves a number up by at most half a unit of the last place.\<close>

lemma roundHalfEven_le: "roundHalfEven M (Suc t) * 2 ^ Suc t \<le> M + 2 ^ t"
proof -
  define d :: nat where "d = 2 ^ Suc t"
  define q where "q = M div d"
  define r where "r = M mod d"
  have d: "d = 2 * 2 ^ t" by (simp add: d_def)
  have M: "M = q * d + r" by (simp add: q_def r_def)
  have down: "q * d \<le> M + 2 ^ t"
    using M by linarith
  have up: "(q + 1) * d \<le> M + 2 ^ t" if "d \<le> 2 * r"
  proof -
    from that have "(2::nat) ^ t \<le> r" by (simp add: d)
    moreover have "(q + 1) * d = q * d + 2 * 2 ^ t"
      by (simp add: algebra_simps d)
    ultimately show ?thesis using M by linarith
  qed
  have "roundHalfEven M (Suc t) = q \<or> (d \<le> 2 * r \<and> roundHalfEven M (Suc t) = q + 1)"
    unfolding roundHalfEven_def Let_def d_def [symmetric] q_def [symmetric] r_def [symmetric]
    by auto
  with down up show ?thesis
    unfolding d_def [symmetric] by auto
qed

text \<open>
  The rounded product stays below \<open>n\<close>, so the index is in range. As
  \<open>m + 1 \<le> 2 ^ p\<close>, the exact product \<open>M\<close> is at least \<open>n\<close> short of
  \<open>n * 2 ^ p\<close>; rounding away \<open>t + 1\<close> bits adds at most \<open>2 ^ t\<close>, and then
  \<open>2 ^ (53 + t) \<le> M < 2 ^ 53 * n\<close>, so \<open>2 ^ t < n\<close>.
\<close>

lemma floorRandom_less: "0 < n \<Longrightarrow> floorRandom n r < n"
proof -
  assume n: "0 < n"
  let ?m = "significand r" and ?p = "exponent r"
  let ?M = "?m * n"
  have m: "?m < 2 ^ 53" "?m < 2 ^ ?p" by (rule random_double_bounds)+
  have room: "?M + n \<le> n * 2 ^ ?p"
  proof -
    from m(2) have "Suc ?m \<le> 2 ^ ?p" by simp
    then have "Suc ?m * n \<le> 2 ^ ?p * n" by (rule mult_le_mono1)
    then show ?thesis by (simp add: algebra_simps)
  qed
  have "roundHalfEven ?M (excessBits ?M) * 2 ^ excessBits ?M < n * 2 ^ ?p"
  proof (cases "excessBits ?M")
    case 0
    then show ?thesis using m(2) n by (simp add: roundHalfEven_0)
  next
    case (Suc t)
    then have "2 ^ (53 + t) \<le> ?M" by (rule excessBits_Suc)
    moreover have "?M < 2 ^ 53 * n" using m(1) n by simp
    ultimately have "(2::nat) ^ 53 * 2 ^ t < 2 ^ 53 * n" by (simp only: power_add)
    then have "2 ^ t < n" by (simp only: mult_less_cancel1)
    with roundHalfEven_le [of ?M t] room show ?thesis unfolding Suc by linarith
  qed
  then show ?thesis
    by (simp add: floorRandom_def Math_floor_def times_double_def Let_def
        less_mult_imp_div_less)
qed

text \<open>
  The rounding at work. The double 0.7 is \<open>3152519739159347 / 2 ^ 52\<close>; its exact
  product with 10 is just below 7 and rounds to 7. Likewise 0.1 times 10 rounds to 1,
  0.6666666666666666 times 3 to 2 and 0.3333333333333333 times 3 to 1. The largest
  double below 1 gives the last index.
\<close>

lemma floorRandom_rounding:
  "floorRandom 10 (double 3152519739159347 52) = 7"
  "floorRandom 10 (double 7205759403792794 56) = 1"
  "floorRandom 3 (double 6004799503160661 53) = 2"
  "floorRandom 3 (double 6004799503160661 54) = 1"
  "floorRandom 10 (double 3 2) = 7"
  "floorRandom 10 (double 9007199254740991 53) = 9"
  "floorRandom 3 (double 9007199254740991 53) = 2"
  "floorRandom 10 (double 0 0) = 0"
  by (simp_all add: floorRandom_def Math_floor_def times_double_def significand.rep_eq
      exponent.rep_eq double.rep_eq excessBits_fits excessBits_halve roundHalfEven_def)

lemma length_cities: "length cities = 10"
  by (simp add: cities_def)

lemma distinct_cityState: "distinct (map cityState cities)"
  by (simp add: cities_def cityState_def)

lemma cityState_nth_neq:
  assumes "i < length cities" and "j < length cities" and "i \<noteq> j"
  shows "cityState (cities ! i) \<noteq> cityState (cities ! j)"
proof -
  have "map cityState cities ! i \<noteq> map cityState cities ! j"
    using assms distinct_cityState by (simp add: nth_eq_iff_index_eq del: nth_map)
  then show ?thesis using assms by simp
qed

subsection \<open>The format check\<close>

text \<open>The regular expression accepts exactly the strings of ten digits.\<close>

lemma awbRegexTest_iff: "awbRegexTest s \<longleftrightarrow> length s = 10 \<and> list_all isDigit s"
proof -
  have "digits n s = Some [] \<longleftrightarrow> length s = n \<and> list_all isDigit s" for n
    by (induction n s rule: digits.induct) auto
  then show ?thesis by (simp add: awbRegexTest_def)
qed

subsection \<open>The loops of the generator\<close>

lemma drawDestIndex_distinct:
  "d \<noteq> oi \<Longrightarrow> drawDestIndex oi d w = Some (d, w)"
  by (subst drawDestIndex.simps) simp

text \<open>
  The rejection loop ends as soon as the random source gives an index other than the
  origin's; it then has read the random source only.
\<close>

lemma drawDestIndex_returns:
  "floorRandom (length cities) (mathRandom w !! k) \<noteq> oi \<Longrightarrow>
   \<exists>di w'. drawDestIndex oi d w = Some (di, w') \<and> di \<noteq> oi \<and> (di = d \<or> di < length cities) \<and>
      dateNow w' = dateNow w \<and> effects w' = effects w"
proof (induction k arbitrary: d w)
  case 0
  show ?case
  proof (cases "d = oi")
    case False
    then show ?thesis by (simp add: drawDestIndex_distinct)
  next
    case True
    with 0 show ?thesis
      apply (subst drawDestIndex.simps)
      apply (subst drawDestIndex.simps)
      apply (simp add: Math_random_def floorRandom_less length_cities)
      done
  qed
next
  case (Suc k)
  show ?case
  proof (cases "d = oi")
    case False
    then show ?thesis by (simp add: drawDestIndex_distinct)
  next
    case True
    let ?w = "snd (Math_random w)"
    from Suc.prems have "floorRandom (length cities) (mathRandom ?w !! k) \<noteq> oi"
      by (simp add: Math_random_def)
    from Suc.IH [OF this, of "floorRandom (length cities) (fst (Math_random w))"]
    obtain di w' where
      "drawDestIndex oi (floorRandom (length cities) (fst (Math_random w))) ?w = Some (di, w')"
      "di \<noteq> oi" "di < length cities" "dateNow w' = dateNow ?w" "effects w' = effects ?w"
      using floorRandom_less [of "length cities"] by (auto simp: length_cities)
    with True show ?thesis
      by (subst drawDestIndex.simps) (simp add: Math_random_def)
  qed
qed

text \<open>
  The counting loop puts one event per index in front of the list, the last index
  first; \<open>c j\<close> is the city drawn for index \<open>j\<close>.
\<close>

lemma transitLoop_shape:
  "\<exists>c w'. transitLoop h now i n evs w =
      (rev (map (\<lambda>j. \<lparr>status = ''In Transit'', location = cityState (c j),
                     timestamp = toLocaleString h (now - (24 - int j * 8) * 60 * 60 * 1000),
                     description = Some ''Shipment in transit to destination''\<rparr>) [i..<n]) @ evs, w') \<and>
      (\<forall>j. c j \<in> set cities) \<and> dateNow w' = dateNow w \<and> effects w' = effects w"
proof (induction h now i n evs w rule: transitLoop.induct)
  case (1 h now i n evs w)
  show ?case
  proof (cases "i < n")
    case False
    then show ?thesis
      by (subst transitLoop.simps) (simp add: length_cities exI [of _ "\<lambda>j. cities ! 0"])
  next
    case True
    obtain city w1 where g: "getRandomCity w = (city, w1)" by (cases "getRandomCity w")
    have city: "city \<in> set cities" and w1: "dateNow w1 = dateNow w" "effects w1 = effects w"
      using g floorRandom_less [of "length cities" "shd (mathRandom w)"]
      by (auto simp: getRandomCity_def Math_random_def length_cities)
    from "1.IH" [OF True g [symmetric] refl]
    obtain c w' where
      IH: "transitLoop h now (i + 1) n
             (\<lparr>status = ''In Transit'', location = cityState city,
               timestamp = toLocaleString h (now - (24 - int i * 8) * 60 * 60 * 1000),
               description = Some ''Shipment in transit to destination''\<rparr> # evs) w1 =
           (rev (map (\<lambda>j. \<lparr>status = ''In Transit'', location = cityState (c j),
                     timestamp = toLocaleString h (now - (24 - int j * 8) * 60 * 60 * 1000),
                     description = Some ''Shipment in transit to destination''\<rparr>) [i + 1..<n]) @
             \<lparr>status = ''In Transit'', location = cityState city,
               timestamp = toLocaleString h (now - (24 - int i * 8) * 60 * 60 * 1000),
               description = Some ''Shipment in transit to destination''\<rparr> # evs, w')"
        and c: "\<forall>j. c j \<in> set cities" and w': "dateNow w' = dateNow w1" "effects w' = effects w1"
      by blast
    let ?c = "c(i := city)"
    have "transitLoop h now i n evs w =
      (rev (map (\<lambda>j. \<lparr>status = ''In Transit'', location = cityState (?c j),
                     timestamp = toLocaleString h (now - (24 - int j * 8) * 60 * 60 * 1000),
                     description = Some ''Shipment in transit to destination''\<rparr>) [i..<n]) @ evs, w')"
      using True g IH
      by (subst transitLoop.simps) (simp add: upt_conv_Cons)
    moreover have "\<forall>j. ?c j \<in> set cities" using c city by simp
    ultimately show ?thesis using w' w1 by (intro exI [of _ ?c] exI [of _ w']) simp
  qed
qed

text \<open>The instants of the events, most recent first.\<close>

lemma sorted_instants:
  "sorted_wrt (>) (rev (map (\<lambda>j. now - (24 - int j * 8) * 60 * 60 * 1000) [0..<n]) @
      [now - 48 * 60 * 60 * 1000])"
  by (auto simp: sorted_wrt_append sorted_wrt_rev sorted_wrt_map
      intro: sorted_wrt_mono_rel [of "[0..<n]" "(<)"])

subsection \<open>The synthesized record\<close>

text \<open>
  The generator returns when some draw after the first gives an index other than the
  origin's. Its result: origin index \<open>oi\<close>, destination index \<open>di\<close>, \<open>n\<close> transit
  points through the cities \<open>c\<close>, all instants relative to the one clock reading.
\<close>

lemma generate_shape:
  assumes fair: "floorRandom (length cities) (mathRandom w !! Suc k) \<noteq>
                 floorRandom (length cities) (mathRandom w !! 0)"
  shows "\<exists>oi di n c w'.
    generateRandomTrackingInfo h a w =
      Some (\<lparr>awbNumber = a,
             currentStatus = ''In Transit'',
             expectedDelivery =
               toLocaleDateString h (shd (dateNow w) + 3 * 24 * 60 * 60 * 1000),
             origin = cityState (cities ! oi),
             destination = cityState (cities ! di),
             courier = ''RocketryBox Express'',
             events =
               rev (map (\<lambda>j. \<lparr>status = ''In Transit'', location = cityState (c j),
                     timestamp =
                       toLocaleString h (shd (dateNow w) - (24 - int j * 8) * 60 * 60 * 1000),
                     description = Some ''Shipment in transit to destination''\<rparr>) [0..<n]) @
               [\<lparr>status = ''Shipped'', location = cityState (cities ! oi),
                 timestamp = toLocaleString h (shd (dateNow w) - 48 * 60 * 60 * 1000),
                 description = Some ''Shipment picked up from sender''\<rparr>]\<rparr>, w') \<and>
    oi < length cities \<and> di < length cities \<and> di \<noteq> oi \<and> 1 \<le> n \<and> n \<le> 3 \<and>
    (\<forall>j. c j \<in> set cities) \<and> effects w' = effects w"
proof -
  let ?s = "mathRandom w"
  define oi where "oi = floorRandom (length cities) (shd ?s)"
  define d where "d = floorRandom (length cities) (shd (stl ?s))"
  define w2 where "w2 = w\<lparr>mathRandom := stl (stl ?s)\<rparr>"
  have oi: "oi < length cities" and d: "d < length cities"
    by (simp_all add: oi_def d_def floorRandom_less length_cities)
  have "\<exists>di w3. drawDestIndex oi d w2 = Some (di, w3) \<and> di \<noteq> oi \<and> di < length cities \<and>
          dateNow w3 = dateNow w \<and> effects w3 = effects w"
  proof (cases k)
    case 0
    with fair have "d \<noteq> oi" by (simp add: d_def oi_def)
    then show ?thesis using d by (simp add: drawDestIndex_distinct w2_def)
  next
    case (Suc k')
    with fair have "floorRandom (length cities) (mathRandom w2 !! k') \<noteq> oi"
      by (simp add: w2_def oi_def)
    from drawDestIndex_returns [OF this, of d] show ?thesis
      using d by (auto simp: w2_def)
  qed
  then obtain di w3 where
    draw: "drawDestIndex oi d w2 = Some (di, w3)" and di: "di \<noteq> oi" "di < length cities"
      and w3: "dateNow w3 = dateNow w" "effects w3 = effects w"
    by blast
  define now where "now = shd (dateNow w)"
  define w4 where "w4 = w3\<lparr>dateNow := stl (dateNow w3)\<rparr>"
  define n where "n = floorRandom 3 (shd (mathRandom w4)) + 1"
  define w5 where "w5 = w4\<lparr>mathRandom := stl (mathRandom w4)\<rparr>"
  have n: "1 \<le> n" "n \<le> 3"
    using floorRandom_less [of 3 "shd (mathRandom w4)"] by (simp_all add: n_def)
  from transitLoop_shape [of h now 0 n _ w5]
  obtain c w6 where
    loop: "transitLoop h now 0 n
            [\<lparr>status = ''Shipped'', location = cityState (cities ! oi),
              timestamp = toLocaleString h (now - 48 * 60 * 60 * 1000),
              description = Some ''Shipment picked up from sender''\<rparr>] w5 =
          (rev (map (\<lambda>j. \<lparr>status = ''In Transit'', location = cityState (c j),
                     timestamp = toLocaleString h (now - (24 - int j * 8) * 60 * 60 * 1000),
                     description = Some ''Shipment in transit to destination''\<rparr>) [0..<n]) @
             [\<lparr>status = ''Shipped'', location = cityState (cities ! oi),
              timestamp = toLocaleString h (now - 48 * 60 * 60 * 1000),
              description = Some ''Shipment picked up from sender''\<rparr>], w6)"
      and c: "\<forall>j. c j \<in> set cities" and w6: "effects w6 = effects w5"
    by blast
  have "generateRandomTrackingInfo h a w =
      Some (\<lparr>awbNumber = a,
             currentStatus = ''In Transit'',
             expectedDelivery = toLocaleDateString h (now + 3 * 24 * 60 * 60 * 1000),
             origin = cityState (cities ! oi),
             destination = cityState (cities ! di),
             courier = ''RocketryBox Express'',
             events =
               rev (map (\<lambda>j. \<lparr>status = ''In Transit'', location = cityState (c j),
                     timestamp = toLocaleString h (now - (24 - int j * 8) * 60 * 60 * 1000),
                     description = Some ''Shipment in transit to destination''\<rparr>) [0..<n]) @
               [\<lparr>status = ''Shipped'', location = cityState (cities ! oi),
                 timestamp = toLocaleString h (now - 48 * 60 * 60 * 1000),
                 description = Some ''Shipment picked up from sender''\<rparr>]\<rparr>, w6)"
    using draw [unfolded oi_def d_def w2_def]
      loop [unfolded n_def w5_def w4_def now_def oi_def] w3
    by (simp add: generateRandomTrackingInfo_def Math_random_def Date_now_def Let_def
        n_def w5_def w4_def now_def oi_def)
  moreover have "effects w6 = effects w"
    using w6 w3 by (simp add: w5_def w4_def)
  ultimately show ?thesis
    using oi di n c unfolding now_def by blast
qed

lemma canned_None:
  "a \<notin> {''1234567890'', ''9876543210'', ''5678901234''} \<Longrightarrow>
   map_of (dummyTrackingData h ld) a = None"
  by (simp add: dummyTrackingData_def)

lemma canned_Some:
  "a \<in> {''1234567890'', ''9876543210'', ''5678901234''} \<Longrightarrow>
   \<exists>info. map_of (dummyTrackingData h ld) a = Some info \<and> awbNumber info = a"
  by (auto simp: dummyTrackingData_def)

lemma canned_valid:
  "a \<in> {''1234567890'', ''9876543210'', ''5678901234''} \<Longrightarrow> a \<noteq> [] \<and> awbRegexTest a"
  by (auto simp: awbRegexTest_iff isDigit_def)

text \<open>
  For a well-formed identifier outside the table, the call is the timer followed by
  the generator.
\<close>

lemma fetch_generated:
  assumes "length a = 10" and "\<forall>ch\<in>set a. isDigit ch"
    and "a \<notin> {''1234567890'', ''9876543210'', ''5678901234''}"
  shows "fetchTrackingInfo h ld a w =
     map_option (\<lambda>(info, w'). (Inr info, w'))
       (generateRandomTrackingInfo h a (setTimeout 1000 w))"
proof -
  have "awbRegexTest a" "a \<noteq> []"
    using assms(1,2) by (auto simp: awbRegexTest_iff list_all_iff)
  then show ?thesis
    using canned_None [OF assms(3)]
    by (simp add: fetchTrackingInfo_def split: option.splits)
qed

lemma fetch_synthesized:
  assumes "length a = 10" and "\<forall>ch\<in>set a. isDigit ch"
    and "a \<notin> {''1234567890'', ''9876543210'', ''5678901234''}"
    and "floorRandom (length cities) (mathRandom w !! Suc k) \<noteq>
         floorRandom (length cities) (mathRandom w !! 0)"
  shows "\<exists>oi di n c w'.
    fetchTrackingInfo h ld a w =
      Some (Inr \<lparr>awbNumber = a,
             currentStatus = ''In Transit'',
             expectedDelivery =
               toLocaleDateString h (shd (dateNow w) + 3 * 24 * 60 * 60 * 1000),
             origin = cityState (cities ! oi),
             destination = cityState (cities ! di),
             courier = ''RocketryBox Express'',
             events =
               rev (map (\<lambda>j. \<lparr>status = ''In Transit'', location = cityState (c j),
                     timestamp =
                       toLocaleString h (shd (dateNow w) - (24 - int j * 8) * 60 * 60 * 1000),
                     description = Some ''Shipment in transit to destination''\<rparr>) [0..<n]) @
               [\<lparr>status = ''Shipped'', location = cityState (cities ! oi),
                 timestamp = toLocaleString h (shd (dateNow w) - 48 * 60 * 60 * 1000),
                 description = Some ''Shipment picked up from sender''\<rparr>]\<rparr>, w') \<and>
    oi < length cities \<and> di < length cities \<and> di \<noteq> oi \<and> 1 \<le> n \<and> n \<le> 3 \<and>
    (\<forall>j. c j \<in> set cities) \<and> effects w' = effects w @ [SetTimeout 1000]"
proof -
  have "floorRandom (length cities) (mathRandom (setTimeout 1000 w) !! Suc k) \<noteq>
        floorRandom (length cities) (mathRandom (setTimeout 1000 w) !! 0)"
    using assms(4) by (simp add: setTimeout_def)
  from generate_shape [OF this, of h a]
  show ?thesis
    unfolding fetch_generated [OF assms(1-3)]
    by (auto simp: setTimeout_def)
qed

lemma fair_sampleWorld:
  "floorRandom (length cities) (mathRandom (sampleWorld t) !! Suc 1) \<noteq>
   floorRandom (length cities) (mathRandom (sampleWorld t) !! 0)"
  by (simp add: sampleWorld_def length_cities floorRandom_rounding)

subsection \<open>When the generator does not return\<close>

text \<open>
  The hypothesis on the random source is the exact condition for the loop to end: if
  the loop returns, the destination index it started from differs from the origin's or
  some later draw does.
\<close>

lemma drawDestIndex_Some_fair:
  assumes "drawDestIndex oi d w = Some r"
  shows "d \<noteq> oi \<or> (\<exists>k. floorRandom (length cities) (mathRandom w !! k) \<noteq> oi)"
proof (rule drawDestIndex.raw_induct
    [where P = "\<lambda>oi d w r. d \<noteq> oi \<or>
       (\<exists>k. floorRandom (length cities) (mathRandom w !! k) \<noteq> oi)", OF _ assms])
  fix f :: "nat \<Rightarrow> nat \<Rightarrow> world \<Rightarrow> (nat \<times> world) option"
  fix oi d :: nat and w :: world and r :: "nat \<times> world"
  assume IH: "\<And>oi d w r. f oi d w = Some r \<Longrightarrow>
      d \<noteq> oi \<or> (\<exists>k. floorRandom (length cities) (mathRandom w !! k) \<noteq> oi)"
  assume step: "(if d = oi
      then f oi (floorRandom (length cities) (fst (Math_random w))) (snd (Math_random w))
      else Some (d, w)) = Some r"
  show "d \<noteq> oi \<or> (\<exists>k. floorRandom (length cities) (mathRandom w !! k) \<noteq> oi)"
  proof (cases "d = oi")
    case False
    then show ?thesis by simp
  next
    case True
    with step have "f oi (floorRandom (length cities) (fst (Math_random w)))
        (snd (Math_random w)) = Some r"
      by simp
    then have "floorRandom (length cities) (fst (Math_random w)) \<noteq> oi \<or>
        (\<exists>k. floorRandom (length cities) (mathRandom (snd (Math_random w)) !! k) \<noteq> oi)"
      by (rule IH)
    then consider
      "floorRandom (length cities) (mathRandom w !! 0) \<noteq> oi"
      | k where "floorRandom (length cities) (mathRandom w !! Suc k) \<noteq> oi"
      by (auto simp: Math_random_def)
    then show ?thesis by cases blast+
  qed
qed

text \<open>
  A random source that repeats the origin's index for ever keeps the generator, and
  with it the whole call, from returning.
\<close>

lemma generate_None:
  assumes "\<forall>k. floorRandom (length cities) (mathRandom w !! Suc k) =
               floorRandom (length cities) (mathRandom w !! 0)"
  shows "generateRandomTrackingInfo h a w = None"
proof -
  let ?oi = "floorRandom (length cities) (shd (mathRandom w))"
  let ?w2 = "w\<lparr>mathRandom := stl (stl (mathRandom w))\<rparr>"
  have "drawDestIndex ?oi (floorRandom (length cities) (shd (stl (mathRandom w)))) ?w2 = None"
  proof (rule ccontr)
    assume "\<not> ?thesis"
    then obtain r where
      "drawDestIndex ?oi (floorRandom (length cities) (shd (stl (mathRandom w)))) ?w2 = Some r"
      by auto
    from drawDestIndex_Some_fair [OF this] assms [rule_format, of 0]
    obtain k where "floorRandom (length cities) (mathRandom ?w2 !! k) \<noteq> ?oi"
      by auto
    with assms [rule_format, of "Suc k"] show False by simp
  qed
  then show ?thesis
    by (simp add: generateRandomTrackingInfo_def Math_random_def)
qed

lemma fetch_never_returns:
  assumes "length a = 10" and "\<forall>ch\<in>set a. isDigit ch"
    and "a \<notin> {''1234567890'', ''9876543210'', ''5678901234''}"
    and "\<forall>k. floorRandom (length cities) (mathRandom w !! Suc k) =
             floorRandom (length cities) (mathRandom w !! 0)"
  shows "fetchTrackingInfo h ld a w = None"
proof -
  have "generateRandomTrackingInfo h a (setTimeout 1000 w) = None"
    using assms(4) by (intro generate_None) (simp add: setTimeout_def)
  then show ?thesis
    by (simp add: fetch_generated [OF assms(1-3)])
qed

text \<open>
  For one: a random source that gives the double 0.7 and then 0.75 for ever. Both
  products, 0.7 times 10 rounded to a double and 7.5, have the floor 7, so every draw
  of the destination gives the origin's index again.
\<close>

lemma fetch_stuck_example:
  "fetchTrackingInfo h ld ''4242424242''
     \<lparr>mathRandom = double 3152519739159347 52 ## sconst (double 3 2),
      dateNow = clock, effects = []\<rparr> = None"
proof (rule fetch_never_returns)
  show "length ''4242424242'' = 10" by simp
  show "\<forall>ch\<in>set ''4242424242''. isDigit ch" by (simp add: isDigit_def)
  show "''4242424242'' \<notin> {''1234567890'', ''9876543210'', ''5678901234''}" by simp
  show "\<forall>k. floorRandom (length cities)
        (mathRandom \<lparr>mathRandom = double 3152519739159347 52 ## sconst (double 3 2),
           dateNow = clock, effects = []\<rparr> !! Suc k) =
      floorRandom (length cities)
        (mathRandom \<lparr>mathRandom = double 3152519739159347 52 ## sconst (double 3 2),
           dateNow = clock, effects = []\<rparr> !! 0)"
    by (simp add: length_cities floorRandom_rounding)
qed

subsection \<open>Claims about fetchTrackingInfo\<close>

text \<open>
  C1. For a string of ten digits that is no key of the table, fetchTrackingInfo returns
  a synthesized record: origin and destination are two different entries of the city
  list, the event list is not empty, its timestamps are the renderings of strictly
  decreasing instants (most recent first), its last event has status "Shipped" and the
  instant 48 hours before the clock reading of the generator, the current status is
  "In Transit" and the expected delivery is the date 72 hours after that reading. The
  call returns provided the random source at some point gives an index other than the
  origin's, which ends the loop that draws the destination.
\<close>

theorem synthesized_record:
  assumes "length a = 10" and "\<forall>ch\<in>set a. isDigit ch"
    and "a \<notin> {''1234567890'', ''9876543210'', ''5678901234''}"
    and "floorRandom (length cities) (mathRandom w !! Suc k) \<noteq>
         floorRandom (length cities) (mathRandom w !! 0)"
  shows "\<exists>info w' co cd ts.
    fetchTrackingInfo h ld a w = Some (Inr info, w') \<and>
    co \<in> set cities \<and> cd \<in> set cities \<and> co \<noteq> cd \<and>
    origin info = cityState co \<and> destination info = cityState cd \<and>
    origin info \<noteq> destination info \<and>
    events info \<noteq> [] \<and>
    map timestamp (events info) = map (toLocaleString h) ts \<and> sorted_wrt (>) ts \<and>
    last ts = shd (dateNow w) - 48 * 60 * 60 * 1000 \<and>
    status (last (events info)) = ''Shipped'' \<and>
    timestamp (last (events info)) = toLocaleString h (shd (dateNow w) - 48 * 60 * 60 * 1000) \<and>
    currentStatus info = ''In Transit'' \<and>
    expectedDelivery info = toLocaleDateString h (shd (dateNow w) + 72 * 60 * 60 * 1000)"
proof -
  from fetch_synthesized [OF assms, of h ld]
  obtain oi di n c w' where
    fetch: "fetchTrackingInfo h ld a w =
      Some (Inr \<lparr>awbNumber = a,
             currentStatus = ''In Transit'',
             expectedDelivery =
               toLocaleDateString h (shd (dateNow w) + 3 * 24 * 60 * 60 * 1000),
             origin = cityState (cities ! oi),
             destination = cityState (cities ! di),
             courier = ''RocketryBox Express'',
             events =
               rev (map (\<lambda>j. \<lparr>status = ''In Transit'', location = cityState (c j),
                     timestamp =
                       toLocaleString h (shd (dateNow w) - (24 - int j * 8) * 60 * 60 * 1000),
                     description = Some ''Shipment in transit to destination''\<rparr>) [0..<n]) @
               [\<lparr>status = ''Shipped'', location = cityState (cities ! oi),
                 timestamp = toLocaleString h (shd (dateNow w) - 48 * 60 * 60 * 1000),
                 description = Some ''Shipment picked up from sender''\<rparr>]\<rparr>, w')"
    and idx: "oi < length cities" "di < length cities" "di \<noteq> oi"
    by blast
  let ?ts = "rev (map (\<lambda>j. shd (dateNow w) - (24 - int j * 8) * 60 * 60 * 1000) [0..<n]) @
      [shd (dateNow w) - 48 * 60 * 60 * 1000]"
  have neq: "cityState (cities ! oi) \<noteq> cityState (cities ! di)"
    using idx by (simp add: cityState_nth_neq)
  then have "cities ! oi \<noteq> cities ! di" by auto
  moreover have "cities ! oi \<in> set cities" "cities ! di \<in> set cities"
    using idx by simp_all
  moreover have "sorted_wrt (>) ?ts" by (rule sorted_instants)
  moreover have "last ?ts = shd (dateNow w) - 48 * 60 * 60 * 1000" by simp
  ultimately show ?thesis
    using neq
    by (intro exI [of _ "cities ! oi"] exI [of _ "cities ! di"] exI [of _ ?ts] exI [of _ w']
        exI [of _ "\<lparr>awbNumber = a, currentStatus = ''In Transit'',
             expectedDelivery =
               toLocaleDateString h (shd (dateNow w) + 3 * 24 * 60 * 60 * 1000),
             origin = cityState (cities ! oi),
             destination = cityState (cities ! di),
             courier = ''RocketryBox Express'',
             events =
               rev (map (\<lambda>j. \<lparr>status = ''In Transit'', location = cityState (c j),
                     timestamp =
                       toLocaleString h (shd (dateNow w) - (24 - int j * 8) * 60 * 60 * 1000),
                     description = Some ''Shipment in transit to destination''\<rparr>) [0..<n]) @
               [\<lparr>status = ''Shipped'', location = cityState (cities ! oi),
                 timestamp = toLocaleString h (shd (dateNow w) - 48 * 60 * 60 * 1000),
                 description = Some ''Shipment picked up from sender''\<rparr>]\<rparr>"])
      (simp add: fetch rev_map o_def)
qed

theorem synthesized_record_witness:
  "length ''4242424242'' = 10 \<and> list_all isDigit ''4242424242'' \<and>
   ''4242424242'' \<notin> {''1234567890'', ''9876543210'', ''5678901234''} \<and>
   floorRandom (length cities) (mathRandom (sampleWorld 1700000000000) !! Suc 1) \<noteq>
     floorRandom (length cities) (mathRandom (sampleWorld 1700000000000) !! 0) \<and>
   (\<exists>info w' co cd ts.
      fetchTrackingInfo sampleHost (sconst 1699990000000) ''4242424242''
        (sampleWorld 1700000000000) = Some (Inr info, w') \<and>
      co \<in> set cities \<and> cd \<in> set cities \<and> co \<noteq> cd \<and>
      origin info = cityState co \<and> destination info = cityState cd \<and>
      origin info \<noteq> destination info \<and>
      events info \<noteq> [] \<and>
      map timestamp (events info) = map (toLocaleString sampleHost) ts \<and> sorted_wrt (>) ts \<and>
      last ts = 1700000000000 - 48 * 60 * 60 * 1000 \<and>
      status (last (events info)) = ''Shipped'' \<and>
      timestamp (last (events info)) =
        toLocaleString sampleHost (1700000000000 - 48 * 60 * 60 * 1000) \<and>
      currentStatus info = ''In Transit'' \<and>
      expectedDelivery info =
        toLocaleDateString sampleHost (1700000000000 + 72 * 60 * 60 * 1000))"
proof -
  have a: "length ''4242424242'' = 10" "\<forall>ch\<in>set ''4242424242''. isDigit ch"
    "''4242424242'' \<notin> {''1234567890'', ''9876543210'', ''5678901234''}"
    by (simp_all add: isDigit_def)
  have clock: "shd (dateNow (sampleWorld 1700000000000)) = 1700000000000"
    by (simp add: sampleWorld_def)
  show ?thesis
    using a [unfolded list_all_iff [symmetric]] fair_sampleWorld [of 1700000000000]
      synthesized_record [OF a fair_sampleWorld [of 1700000000000],
        of sampleHost "sconst 1699990000000"]
    unfolding clock by blast
qed

text \<open>
  C8. For a string of ten digits that is no key of the table, the event list of the
  synthesized record has between 2 and 4 elements: between 1 and 3 events with status
  "In Transit", followed by exactly one event with status "Shipped".
\<close>

theorem synthesized_event_count:
  assumes "length a = 10" and "\<forall>ch\<in>set a. isDigit ch"
    and "a \<notin> {''1234567890'', ''9876543210'', ''5678901234''}"
    and "floorRandom (length cities) (mathRandom w !! Suc k) \<noteq>
         floorRandom (length cities) (mathRandom w !! 0)"
  shows "\<exists>info w' transit shipped.
    fetchTrackingInfo h ld a w = Some (Inr info, w') \<and>
    events info = transit @ [shipped] \<and>
    status shipped = ''Shipped'' \<and>
    (\<forall>e\<in>set transit. status e = ''In Transit'') \<and>
    1 \<le> length transit \<and> length transit \<le> 3 \<and>
    2 \<le> length (events info) \<and> length (events info) \<le> 4"
proof -
  from fetch_synthesized [OF assms, of h ld]
  obtain oi di n c w' where
    fetch: "fetchTrackingInfo h ld a w =
      Some (Inr \<lparr>awbNumber = a,
             currentStatus = ''In Transit'',
             expectedDelivery =
               toLocaleDateString h (shd (dateNow w) + 3 * 24 * 60 * 60 * 1000),
             origin = cityState (cities ! oi),
             destination = cityState (cities ! di),
             courier = ''RocketryBox Express'',
             events =
               rev (map (\<lambda>j. \<lparr>status = ''In Transit'', location = cityState (c j),
                     timestamp =
                       toLocaleString h (shd (dateNow w) - (24 - int j * 8) * 60 * 60 * 1000),
                     description = Some ''Shipment in transit to destination''\<rparr>) [0..<n]) @
               [\<lparr>status = ''Shipped'', location = cityState (cities ! oi),
                 timestamp = toLocaleString h (shd (dateNow w) - 48 * 60 * 60 * 1000),
                 description = Some ''Shipment picked up from sender''\<rparr>]\<rparr>, w')"
    and n: "1 \<le> n" "n \<le> 3"
    by blast
  let ?transit = "rev (map (\<lambda>j. \<lparr>status = ''In Transit'', location = cityState (c j),
                     timestamp =
                       toLocaleString h (shd (dateNow w) - (24 - int j * 8) * 60 * 60 * 1000),
                     description = Some ''Shipment in transit to destination''\<rparr>) [0..<n])"
  have "length ?transit = n" by simp
  moreover have "\<forall>e\<in>set ?transit. status e = ''In Transit''" by auto
  ultimately show ?thesis
    using n
    by (intro exI [of _ ?transit] exI [of _ w']
        exI [of _ "\<lparr>status = ''Shipped'', location = cityState (cities ! oi),
                 timestamp = toLocaleString h (shd (dateNow w) - 48 * 60 * 60 * 1000),
                 description = Some ''Shipment picked up from sender''\<rparr>"]
        exI [of _ "\<lparr>awbNumber = a, currentStatus = ''In Transit'',
             expectedDelivery =
               toLocaleDateString h (shd (dateNow w) + 3 * 24 * 60 * 60 * 1000),
             origin = cityState (cities ! oi),
             destination = cityState (cities ! di),
             courier = ''RocketryBox Express'',
             events = ?transit @
               [\<lparr>status = ''Shipped'', location = cityState (cities ! oi),
                 timestamp = toLocaleString h (shd (dateNow w) - 48 * 60 * 60 * 1000),
                 description = Some ''Shipment picked up from sender''\<rparr>]\<rparr>"])
      (simp add: fetch)
qed

theorem synthesized_event_count_witness:
  "length ''1000000001'' = 10 \<and> list_all isDigit ''1000000001'' \<and>
   ''1000000001'' \<notin> {''1234567890'', ''9876543210'', ''5678901234''} \<and>
   floorRandom (length cities) (mathRandom (sampleWorld 1700000000000) !! Suc 1) \<noteq>
     floorRandom (length cities) (mathRandom (sampleWorld 1700000000000) !! 0) \<and>
   (\<exists>info w' transit shipped.
      fetchTrackingInfo sampleHost (sconst 1699990000000) ''1000000001''
        (sampleWorld 1700000000000) = Some (Inr info, w') \<and>
      events info = transit @ [shipped] \<and>
      status shipped = ''Shipped'' \<and>
      (\<forall>e\<in>set transit. status e = ''In Transit'') \<and>
      1 \<le> length transit \<and> length transit \<le> 3 \<and>
      2 \<le> length (events info) \<and> length (events info) \<le> 4)"
proof -
  have a: "length ''1000000001'' = 10" "\<forall>ch\<in>set ''1000000001''. isDigit ch"
    "''1000000001'' \<notin> {''1234567890'', ''9876543210'', ''5678901234''}"
    by (simp_all add: isDigit_def)
  show ?thesis
    using a [unfolded list_all_iff [symmetric]] fair_sampleWorld [of 1700000000000]
      synthesized_event_count [OF a fair_sampleWorld [of 1700000000000],
        of sampleHost "sconst 1699990000000"]
    by blast
qed

text \<open>
  C9. For a string of ten digits that is no key of the table, the synthesized record
  carries the identifier it was asked for, unchanged, and the courier
  "RocketryBox Express".
\<close>

theorem synthesized_awb_courier:
  assumes "length a = 10" and "\<forall>ch\<in>set a. isDigit ch"
    and "a \<notin> {''1234567890'', ''9876543210'', ''5678901234''}"
    and "floorRandom (length cities) (mathRandom w !! Suc k) \<noteq>
         floorRandom (length cities) (mathRandom w !! 0)"
  shows "\<exists>info w'.
    fetchTrackingInfo h ld a w = Some (Inr info, w') \<and>
    awbNumber info = a \<and> courier info = ''RocketryBox Express''"
proof -
  from fetch_synthesized [OF assms, of h ld]
  obtain info w' where
    "fetchTrackingInfo h ld a w = Some (Inr info, w')"
    "awbNumber info = a" "courier info = ''RocketryBox Express''"
    by force
  then show ?thesis by blast
qed

theorem synthesized_awb_courier_witness:
  "length ''0000000000'' = 10 \<and> list_all isDigit ''0000000000'' \<and>
   ''0000000000'' \<notin> {''1234567890'', ''9876543210'', ''5678901234''} \<and>
   floorRandom (length cities) (mathRandom (sampleWorld 1700000000000) !! Suc 1) \<noteq>
     floorRandom (length cities) (mathRandom (sampleWorld 1700000000000) !! 0) \<and>
   (\<exists>info w'.
      fetchTrackingInfo sampleHost (sconst 1699990000000) ''0000000000''
        (sampleWorld 1700000000000) = Some (Inr info, w') \<and>
      awbNumber info = ''0000000000'' \<and> courier info = ''RocketryBox Express'')"
proof -
  have a: "length ''0000000000'' = 10" "\<forall>ch\<in>set ''0000000000''. isDigit ch"
    "''0000000000'' \<notin> {''1234567890'', ''9876543210'', ''5678901234''}"
    by (simp_all add: isDigit_def)
  show ?thesis
    using a [unfolded list_all_iff [symmetric]] fair_sampleWorld [of 1700000000000]
      synthesized_awb_courier [OF a fair_sampleWorld [of 1700000000000],
        of sampleHost "sconst 1699990000000"]
    by blast
qed

text \<open>
  C7. For the identifier 1234567890 the call returns the record of the table with
  exactly 3 events and current status "In Transit"; for 9876543210, the record with
  exactly 4 events and current status "Delivered". Neither call reads the clock or the
  random source.
\<close>

theorem canned_records:
  "(\<exists>info. fetchTrackingInfo h ld ''1234567890'' w = Some (Inr info, setTimeout 1000 w) \<and>
      length (events info) = 3 \<and> currentStatus info = ''In Transit'') \<and>
   (\<exists>info. fetchTrackingInfo h ld ''9876543210'' w = Some (Inr info, setTimeout 1000 w) \<and>
      length (events info) = 4 \<and> currentStatus info = ''Delivered'')"
proof -
  have "awbRegexTest ''1234567890''" "awbRegexTest ''9876543210''"
    by (simp_all add: awbRegexTest_iff isDigit_def)
  then show ?thesis
    by (simp add: fetchTrackingInfo_def dummyTrackingData_def)
qed

theorem canned_records_witness:
  "(\<exists>info. fetchTrackingInfo sampleHost (sconst 1699990000000) ''1234567890''
              (sampleWorld 1700000000000) =
            Some (Inr info, setTimeout 1000 (sampleWorld 1700000000000)) \<and>
      length (events info) = 3 \<and> currentStatus info = ''In Transit'') \<and>
   (\<exists>info. fetchTrackingInfo sampleHost (sconst 1699990000000) ''9876543210''
              (sampleWorld 1700000000000) =
            Some (Inr info, setTimeout 1000 (sampleWorld 1700000000000)) \<and>
      length (events info) = 4 \<and> currentStatus info = ''Delivered'')"
  by (rule canned_records [of sampleHost "sconst 1699990000000" "sampleWorld 1700000000000"])

text \<open>
  C3. For a string that the regular expression does not match, the empty string among
  them, the promise is rejected with the invalid-format error. The effects of the call
  are the timer and the console message and nothing else: the clock and the random
  source are not read, and the result is the same for every table.
\<close>

theorem invalid_awb_rejected:
  assumes "\<not> awbRegexTest a"
  shows "fetchTrackingInfo h ld a w =
    Some (Inl (Error ''Invalid AWB number. Please provide a 10-digit AWB number.''),
          w\<lparr>effects := effects w @
              [SetTimeout 1000,
               ConsoleError ''Error fetching tracking info:''
                 (Error ''Invalid AWB number. Please provide a 10-digit AWB number.'')]\<rparr>)"
  using assms by (simp add: fetchTrackingInfo_def setTimeout_def console_error_def Let_def)

theorem invalid_awb_rejected_witness:
  "\<not> awbRegexTest [] \<and>
   fetchTrackingInfo sampleHost (sconst 1699990000000) [] (sampleWorld 1700000000000) =
    Some (Inl (Error ''Invalid AWB number. Please provide a 10-digit AWB number.''),
          (sampleWorld 1700000000000)\<lparr>effects := effects (sampleWorld 1700000000000) @
              [SetTimeout 1000,
               ConsoleError ''Error fetching tracking info:''
                 (Error ''Invalid AWB number. Please provide a 10-digit AWB number.'')]\<rparr>) \<and>
   \<not> awbRegexTest ''12345abcde'' \<and>
   fetchTrackingInfo sampleHost (sconst 1699990000000) ''12345abcde''
       (sampleWorld 1700000000000) =
    Some (Inl (Error ''Invalid AWB number. Please provide a 10-digit AWB number.''),
          (sampleWorld 1700000000000)\<lparr>effects := effects (sampleWorld 1700000000000) @
              [SetTimeout 1000,
               ConsoleError ''Error fetching tracking info:''
                 (Error ''Invalid AWB number. Please provide a 10-digit AWB number.'')]\<rparr>)"
proof -
  have e: "\<not> awbRegexTest []" and x: "\<not> awbRegexTest ''12345abcde''"
    by (simp_all add: awbRegexTest_iff isDigit_def)
  show ?thesis
    using e x
      invalid_awb_rejected [OF e, of sampleHost "sconst 1699990000000" "sampleWorld 1700000000000"]
      invalid_awb_rejected [OF x, of sampleHost "sconst 1699990000000" "sampleWorld 1700000000000"]
    by blast
qed

text \<open>
  C2, as the code has it. For a key of the table the call returns the record that was
  built when the module was loaded: it is the entry of \<open>dummyTrackingData\<close>, whose
  timestamps are relative to the clock readings \<open>ld\<close> taken at load time, and it is
  the same record, with the same timestamp strings, in whatever world the call is
  made. The call reads neither the clock nor the random source.
\<close>

theorem canned_record_fixed_at_load:
  assumes "a \<in> {''1234567890'', ''9876543210'', ''5678901234''}"
  shows "\<exists>info. map_of (dummyTrackingData h ld) a = Some info \<and> awbNumber info = a \<and>
    (\<forall>w. fetchTrackingInfo h ld a w = Some (Inr info, setTimeout 1000 w))"
proof -
  from canned_Some [OF assms, of h ld]
  obtain info where info: "map_of (dummyTrackingData h ld) a = Some info" "awbNumber info = a"
    by blast
  have "fetchTrackingInfo h ld a w = Some (Inr info, setTimeout 1000 w)" for w
    using canned_valid [OF assms] info(1) by (simp add: fetchTrackingInfo_def)
  with info show ?thesis by blast
qed

theorem canned_record_fixed_at_load_witness:
  "''5678901234'' \<in> {''1234567890'', ''9876543210'', ''5678901234''} \<and>
   (\<exists>info. map_of (dummyTrackingData sampleHost (sconst 1699990000000)) ''5678901234'' =
        Some info \<and> awbNumber info = ''5678901234'' \<and>
      (\<forall>w. fetchTrackingInfo sampleHost (sconst 1699990000000) ''5678901234'' w =
         Some (Inr info, setTimeout 1000 w)))"
proof -
  have a: "''5678901234'' \<in> {''1234567890'', ''9876543210'', ''5678901234''}" by simp
  show ?thesis
    using a canned_record_fixed_at_load [OF a, of sampleHost "sconst 1699990000000"]
    by blast
qed

text \<open>
  C2, as the specification has it, fails: two calls for 1234567890 whose clocks stand
  one hour apart return the same record, with the timestamp strings of the load time.
\<close>

theorem canned_timestamps_counterexample:
  "shd (dateNow (sampleWorld 1700000000000)) \<noteq> shd (dateNow (sampleWorld 1700003600000)) \<and>
   map_option fst
     (fetchTrackingInfo sampleHost (sconst 1699990000000) ''1234567890''
        (sampleWorld 1700000000000)) =
   Some (Inr \<lparr>awbNumber = ''1234567890'',
       currentStatus = ''In Transit'',
       expectedDelivery = ''19677'',
       origin = ''Mumbai, Maharashtra'',
       destination = ''Bangalore, Karnataka'',
       courier = ''RocketryBox Express'',
       events =
        [\<lparr>status = ''In Transit'',
          location = ''Hyderabad, Telangana'',
          timestamp = ''1699946800'',
          description = Some ''Shipment departed from transit facility''\<rparr>,
         \<lparr>status = ''In Transit'',
          location = ''Pune, Maharashtra'',
          timestamp = ''1699903600'',
          description = Some ''Shipment arrived at transit facility''\<rparr>,
         \<lparr>status = ''Shipped'',
          location = ''Mumbai, Maharashtra'',
          timestamp = ''1699817200'',
          description = Some ''Shipment picked up from sender''\<rparr>]\<rparr>) \<and>
   map_option fst
     (fetchTrackingInfo sampleHost (sconst 1699990000000) ''1234567890''
        (sampleWorld 1700003600000)) =
   Some (Inr \<lparr>awbNumber = ''1234567890'',
       currentStatus = ''In Transit'',
       expectedDelivery = ''19677'',
       origin = ''Mumbai, Maharashtra'',
       destination = ''Bangalore, Karnataka'',
       courier = ''RocketryBox Express'',
       events =
        [\<lparr>status = ''In Transit'',
          location = ''Hyderabad, Telangana'',
          timestamp = ''1699946800'',
          description = Some ''Shipment departed from transit facility''\<rparr>,
         \<lparr>status = ''In Transit'',
          location = ''Pune, Maharashtra'',
          timestamp = ''1699903600'',
          description = Some ''Shipment arrived at transit facility''\<rparr>,
         \<lparr>status = ''Shipped'',
          location = ''Mumbai, Maharashtra'',
          timestamp = ''1699817200'',
          description = Some ''Shipment picked up from sender''\<rparr>]\<rparr>)"
proof -
  have "awbRegexTest ''1234567890''"
    by (simp add: awbRegexTest_iff isDigit_def)
  moreover have "decimalInt 1699946800 = ''1699946800''" "decimalInt 1699903600 = ''1699903600''"
    "decimalInt 1699817200 = ''1699817200''" "decimalInt 19677 = ''19677''"
    by (simp_all add: decimalInt_def decimalNat.simps)
  ultimately show ?thesis
    by (simp add: fetchTrackingInfo_def dummyTrackingData_def sampleHost_def sampleWorld_def)
qed

section \<open>Properties of the NDR view model\<close>

lemma andThen_Inr_iff: "andThen m f = Inr y \<longleftrightarrow> (\<exists>x. m = Inr x \<and> f x = Inr y)"
  by (cases m) (simp_all add: andThen_def)

lemma getProp_Inr_iff: "getProp v p = Inr x \<longleftrightarrow> \<not> nullish v \<and> x = propOf v p"
  by (auto simp: getProp_def)

text \<open>A successful \<^verbatim>\<open>map\<close> relates the two lists element by element.\<close>

lemma mapThrowing_Inr:
  "mapThrowing f xs = Inr ys \<Longrightarrow> list_all2 (\<lambda>x y. f x = Inr y) xs ys"
  by (induction xs arbitrary: ys) (auto simp: andThen_Inr_iff)

lemma attemptView_Inr:
  "attemptView a = Inr v \<Longrightarrow>
   \<not> nullish a \<and>
   v = \<lparr>date = propOf a ''date'', time = propOf a ''time'',
        status_attempt = propOf a ''status'', reason_attempt = propOf a ''reason'',
        comments = js_or (propOf a ''agent_remarks'') (Str [])\<rparr>"
  by (auto simp: attemptView_def andThen_Inr_iff getProp_Inr_iff)

text \<open>
  What a successful transformation says about the payload and about the fields with a
  default.
\<close>

lemma ndrDetailsOf_Inr:
  assumes "ndrDetailsOf body = Inr r"
  shows "\<exists>xs. propOf (propOf body ''data'') ''attempt_history'' = Arr xs \<and>
    mapThrowing attemptView xs = Inr (deliveryAttempts r) \<and>
    lastAttemptDate r =
      js_or (optProp (case xs of [] \<Rightarrow> Undefined | x # _ \<Rightarrow> x) ''date'') (Str ''-'') \<and>
    currentLocation r =
      \<lparr>lat = js_or (optProp (propOf (propOf body ''data'') ''current_location'') ''lat'') (Num 0),
       lng = js_or (optProp (propOf (propOf body ''data'') ''current_location'') ''lng'') (Num 0)\<rparr> \<and>
    country (customerDetails r) = Str ''India'' \<and>
    address2 (customerDetails r) =
      js_or (propOf (propOf (propOf body ''data'') ''delivery_address'') ''addressLine2'') (Str []) \<and>
    email (customerDetails r) =
      js_or (propOf (propOf (propOf body ''data'') ''delivery_address'') ''email'') (Str [])"
proof -
  let ?d = "propOf body ''data''"
  from assms obtain first views where
    first: "index0 (propOf ?d ''attempt_history'') = Inr first"
    and views: "arrayMap attemptView (propOf ?d ''attempt_history'') = Inr views"
    and r: "lastAttemptDate r = js_or (optProp first ''date'') (Str ''-'')"
      "deliveryAttempts r = views"
      "currentLocation r =
        \<lparr>lat = js_or (optProp (propOf ?d ''current_location'') ''lat'') (Num 0),
         lng = js_or (optProp (propOf ?d ''current_location'') ''lng'') (Num 0)\<rparr>"
      "country (customerDetails r) = Str ''India''"
      "address2 (customerDetails r) =
        js_or (propOf (propOf ?d ''delivery_address'') ''addressLine2'') (Str [])"
      "email (customerDetails r) =
        js_or (propOf (propOf ?d ''delivery_address'') ''email'') (Str [])"
    by (auto simp: ndrDetailsOf_def andThen_Inr_iff getProp_Inr_iff)
  from views obtain xs where
    xs: "propOf ?d ''attempt_history'' = Arr xs" "mapThrowing attemptView xs = Inr views"
    by (auto simp: arrayMap_def split: jsval.splits)
  from first xs(1) have "first = (case xs of [] \<Rightarrow> Undefined | x # _ \<Rightarrow> x)"
    by simp
  with xs r show ?thesis by simp
qed

text \<open>
  C5, as the code has it. When the attempt history of the payload is empty, the last
  attempt date is the placeholder "-" and there are no delivery attempts. When it is
  not empty, the last attempt date is the date of its first element if that value
  counts as true (a non-empty string, for one), and the placeholder otherwise (the date
  is missing, \<^verbatim>\<open>null\<close>, the empty string, 0 or \<^verbatim>\<open>false\<close>).
\<close>

theorem lastAttemptDate_default:
  assumes "ndrDetailsOf body = Inr r"
    and "propOf (propOf body ''data'') ''attempt_history'' = Arr xs"
  shows "(xs = [] \<longrightarrow> lastAttemptDate r = Str ''-'' \<and> deliveryAttempts r = []) \<and>
    (xs \<noteq> [] \<longrightarrow>
      lastAttemptDate r =
        (if truthy (propOf (hd xs) ''date'') then propOf (hd xs) ''date'' else Str ''-''))"
proof -
  from ndrDetailsOf_Inr [OF assms(1)] assms(2)
  have views: "mapThrowing attemptView xs = Inr (deliveryAttempts r)"
    and last: "lastAttemptDate r =
      js_or (optProp (case xs of [] \<Rightarrow> Undefined | x # _ \<Rightarrow> x) ''date'') (Str ''-'')"
    by auto
  show ?thesis
  proof (cases xs)
    case Nil
    with views last show ?thesis
      by (simp add: js_or_def optProp_def nullish_def)
  next
    case (Cons x xs')
    with views have "\<not> nullish x"
      by (auto simp: andThen_Inr_iff dest: attemptView_Inr)
    with Cons last show ?thesis
      by (simp add: js_or_def optProp_def)
  qed
qed

theorem lastAttemptDate_default_witness:
  "ndrDetailsOf (sampleBody []) =
     Inr \<lparr>awb = Str ''4455667788'', orderNo = Str ''ORD-17'', orderDate = Str ''2024-03-01'',
          courier_ndr = Str ''BlueDart'', customer = Str ''Asha Rao'', attempts = Num 0,
          lastAttemptDate = Str ''-'', status_ndr = Str ''Action Required'',
          reason_ndr = Str ''Customer Not Available'', action = Str ''Reattempt'',
          currentLocation = \<lparr>lat = Num 0, lng = Num 0\<rparr>,
          deliveryAttempts = [],
          customerDetails =
            \<lparr>name_customer = Str ''Asha Rao'', address1 = Str ''12 MG Road'',
             address2 = Str [], city = Str ''Pune'', state_customer = Str ''Maharashtra'',
             pincode = Str ''411001'', country = Str ''India'',
             phone = Str ''9000000000'', email = Str []\<rparr>,
          products = Arr []\<rparr> \<and>
   propOf (propOf (sampleBody []) ''data'') ''attempt_history'' = Arr [] \<and>
   (\<exists>r. ndrDetailsOf (sampleBody [sampleAttempt ''2024-03-04'', sampleAttempt ''2024-03-02'']) =
        Inr r \<and>
      lastAttemptDate r = Str ''2024-03-04'')"
proof -
  let ?r0 = "\<lparr>awb = Str ''4455667788'', orderNo = Str ''ORD-17'', orderDate = Str ''2024-03-01'',
          courier_ndr = Str ''BlueDart'', customer = Str ''Asha Rao'', attempts = Num 0,
          lastAttemptDate = Str ''-'', status_ndr = Str ''Action Required'',
          reason_ndr = Str ''Customer Not Available'', action = Str ''Reattempt'',
          currentLocation = \<lparr>lat = Num 0, lng = Num 0\<rparr>,
          deliveryAttempts = [],
          customerDetails =
            \<lparr>name_customer = Str ''Asha Rao'', address1 = Str ''12 MG Road'',
             address2 = Str [], city = Str ''Pune'', state_customer = Str ''Maharashtra'',
             pincode = Str ''411001'', country = Str ''India'',
             phone = Str ''9000000000'', email = Str []\<rparr>,
          products = Arr []\<rparr>"
  let ?b = "sampleBody [sampleAttempt ''2024-03-04'', sampleAttempt ''2024-03-02'']"
  have e: "ndrDetailsOf (sampleBody []) = Inr ?r0"
    by (simp add: ndrDetailsOf_def sampleBody_def andThen_def getProp_def optProp_def
        arrayMap_def js_or_def nullish_def)
  have h0: "propOf (propOf (sampleBody []) ''data'') ''attempt_history'' = Arr []"
    by (simp add: sampleBody_def)
  obtain r where r: "ndrDetailsOf ?b = Inr r"
    by (simp add: ndrDetailsOf_def sampleBody_def sampleAttempt_def andThen_def getProp_def
        optProp_def arrayMap_def attemptView_def js_or_def nullish_def)
  have h: "propOf (propOf ?b ''data'') ''attempt_history'' =
      Arr [sampleAttempt ''2024-03-04'', sampleAttempt ''2024-03-02'']"
    by (simp add: sampleBody_def)
  have "lastAttemptDate r = Str ''2024-03-04''"
    using lastAttemptDate_default [OF r h] by (simp add: sampleAttempt_def)
  with e h0 r lastAttemptDate_default [OF e h0] show ?thesis by blast
qed

text \<open>
  C5, as the specification has it, fails: for an attempt history whose first element
  has the empty string as its date, the last attempt date is the placeholder and not
  that date.
\<close>

theorem lastAttemptDate_counterexample:
  "propOf (propOf (sampleBody [sampleAttempt []]) ''data'') ''attempt_history'' =
     Arr [sampleAttempt []] \<and>
   propOf (sampleAttempt []) ''date'' = Str [] \<and>
   map_sum id lastAttemptDate (ndrDetailsOf (sampleBody [sampleAttempt []])) = Inr (Str ''-'')"
  by (simp add: ndrDetailsOf_def sampleBody_def sampleAttempt_def andThen_def getProp_def
      optProp_def arrayMap_def attemptView_def js_or_def nullish_def)

text \<open>
  C6. In a view model built from a payload: when the payload has no
  \<^verbatim>\<open>current_location\<close>, the current location is latitude 0 and longitude 0; the
  country is "India" whatever the payload says; address line 2 and email are the empty
  string when the delivery address of the payload has none.
\<close>

theorem ndr_defaults:
  assumes "ndrDetailsOf body = Inr r"
  shows "(propOf (propOf body ''data'') ''current_location'' = Undefined \<longrightarrow>
      currentLocation r = \<lparr>lat = Num 0, lng = Num 0\<rparr>) \<and>
    country (customerDetails r) = Str ''India'' \<and>
    (propOf (propOf (propOf body ''data'') ''delivery_address'') ''addressLine2'' = Undefined \<longrightarrow>
      address2 (customerDetails r) = Str []) \<and>
    (propOf (propOf (propOf body ''data'') ''delivery_address'') ''email'' = Undefined \<longrightarrow>
      email (customerDetails r) = Str [])"
  using ndrDetailsOf_Inr [OF assms]
  by (auto simp: js_or_def optProp_def nullish_def)

theorem ndr_defaults_witness:
  "(\<exists>r. ndrDetailsOf (sampleBody [sampleAttempt ''2024-03-02'']) = Inr r \<and>
      propOf (propOf (sampleBody [sampleAttempt ''2024-03-02'']) ''data'') ''current_location'' =
        Undefined \<and>
      propOf (propOf (propOf (sampleBody [sampleAttempt ''2024-03-02'']) ''data'')
        ''delivery_address'') ''country'' = Str ''Nepal'' \<and>
      propOf (propOf (propOf (sampleBody [sampleAttempt ''2024-03-02'']) ''data'')
        ''delivery_address'') ''addressLine2'' = Undefined \<and>
      propOf (propOf (propOf (sampleBody [sampleAttempt ''2024-03-02'']) ''data'')
        ''delivery_address'') ''email'' = Undefined \<and>
      currentLocation r = \<lparr>lat = Num 0, lng = Num 0\<rparr> \<and>
      country (customerDetails r) = Str ''India'' \<and>
      address2 (customerDetails r) = Str [] \<and>
      email (customerDetails r) = Str [])"
proof -
  let ?b = "sampleBody [sampleAttempt ''2024-03-02'']"
  obtain r where r: "ndrDetailsOf ?b = Inr r"
    by (simp add: ndrDetailsOf_def sampleBody_def sampleAttempt_def andThen_def getProp_def
        optProp_def arrayMap_def attemptView_def js_or_def nullish_def)
  have p: "propOf (propOf ?b ''data'') ''current_location'' = Undefined"
    "propOf (propOf (propOf ?b ''data'') ''delivery_address'') ''country'' = Str ''Nepal''"
    "propOf (propOf (propOf ?b ''data'') ''delivery_address'') ''addressLine2'' = Undefined"
    "propOf (propOf (propOf ?b ''data'') ''delivery_address'') ''email'' = Undefined"
    by (simp_all add: sampleBody_def)
  from ndr_defaults [OF r] p r show ?thesis by blast
qed

text \<open>
  C10. In a view model built from a payload, the delivery attempts are as many as the
  elements of the attempt history and in the same order; each takes its date, time,
  status and reason from the element at the same position, and its comments are the
  empty string when that element has no \<^verbatim>\<open>agent_remarks\<close>.
\<close>

theorem deliveryAttempts_mapped:
  assumes "ndrDetailsOf body = Inr r"
    and "propOf (propOf body ''data'') ''attempt_history'' = Arr xs"
  shows "length (deliveryAttempts r) = length xs \<and>
    (\<forall>i<length xs.
       date (deliveryAttempts r ! i) = propOf (xs ! i) ''date'' \<and>
       time (deliveryAttempts r ! i) = propOf (xs ! i) ''time'' \<and>
       status_attempt (deliveryAttempts r ! i) = propOf (xs ! i) ''status'' \<and>
       reason_attempt (deliveryAttempts r ! i) = propOf (xs ! i) ''reason'' \<and>
       (propOf (xs ! i) ''agent_remarks'' = Undefined \<longrightarrow>
          comments (deliveryAttempts r ! i) = Str []))"
proof -
  from ndrDetailsOf_Inr [OF assms(1)] assms(2)
  have "mapThrowing attemptView xs = Inr (deliveryAttempts r)" by auto
  then have rel: "list_all2 (\<lambda>x y. attemptView x = Inr y) xs (deliveryAttempts r)"
    by (rule mapThrowing_Inr)
  then have len: "length (deliveryAttempts r) = length xs"
    by (simp add: list_all2_lengthD)
  have "date (deliveryAttempts r ! i) = propOf (xs ! i) ''date'' \<and>
       time (deliveryAttempts r ! i) = propOf (xs ! i) ''time'' \<and>
       status_attempt (deliveryAttempts r ! i) = propOf (xs ! i) ''status'' \<and>
       reason_attempt (deliveryAttempts r ! i) = propOf (xs ! i) ''reason'' \<and>
       (propOf (xs ! i) ''agent_remarks'' = Undefined \<longrightarrow>
          comments (deliveryAttempts r ! i) = Str [])" if "i < length xs" for i
  proof -
    from rel that have "attemptView (xs ! i) = Inr (deliveryAttempts r ! i)"
      by (rule list_all2_nthD)
    from attemptView_Inr [OF this] show ?thesis
      by (simp add: js_or_def)
  qed
  with len show ?thesis by blast
qed

theorem deliveryAttempts_mapped_witness:
  "(\<exists>r. ndrDetailsOf (sampleBody
            [sampleAttempt ''2024-03-04'',
             Obj [(''date'', Str ''2024-03-02''), (''agent_remarks'', Str ''Door locked'')]]) =
          Inr r \<and>
      deliveryAttempts r =
        [\<lparr>date = Str ''2024-03-04'', time = Str ''10:30'', status_attempt = Str ''Failed'',
          reason_attempt = Str ''Customer Not Available'', comments = Str []\<rparr>,
         \<lparr>date = Str ''2024-03-02'', time = Undefined, status_attempt = Undefined,
          reason_attempt = Undefined, comments = Str ''Door locked''\<rparr>] \<and>
      length (deliveryAttempts r) = 2 \<and>
      date (deliveryAttempts r ! 1) = Str ''2024-03-02'' \<and>
      comments (deliveryAttempts r ! 0) = Str [])"
proof -
  let ?xs = "[sampleAttempt ''2024-03-04'',
             Obj [(''date'', Str ''2024-03-02''), (''agent_remarks'', Str ''Door locked'')]]"
  obtain r where r: "ndrDetailsOf (sampleBody ?xs) = Inr r"
    and d: "deliveryAttempts r =
        [\<lparr>date = Str ''2024-03-04'', time = Str ''10:30'', status_attempt = Str ''Failed'',
          reason_attempt = Str ''Customer Not Available'', comments = Str []\<rparr>,
         \<lparr>date = Str ''2024-03-02'', time = Undefined, status_attempt = Undefined,
          reason_attempt = Undefined, comments = Str ''Door locked''\<rparr>]"
    by (simp add: ndrDetailsOf_def sampleBody_def sampleAttempt_def andThen_def getProp_def
        optProp_def arrayMap_def attemptView_def js_or_def nullish_def)
  have h: "propOf (propOf (sampleBody ?xs) ''data'') ''attempt_history'' = Arr ?xs"
    by (simp add: sampleBody_def)
  from deliveryAttempts_mapped [OF r h]
  have "length (deliveryAttempts r) = 2"
    and "date (deliveryAttempts r ! 1) = Str ''2024-03-02''"
    and "comments (deliveryAttempts r ! 0) = Str []"
    by (simp_all add: sampleAttempt_def)
  with r d show ?thesis by blast
qed

section \<open>Properties of the API client\<close>

text \<open>
  C4. When the rejection handler of the response interceptor gets an error whose
  response has status 401, the item \<^verbatim>\<open>auth_token\<close> is removed from the local storage,
  \<^verbatim>\<open>/login\<close> is assigned to the location, and the promise is rejected with that
  error. With any other status, or no response at all, the browser is left as it was
  and the promise is rejected with that error.
\<close>

theorem response_interceptor_401:
  assumes "getProp error ''response'' = Inr response"
  shows "(optProp response ''status'' = Num 401 \<longrightarrow>
      responseRejected error b =
        (Inl (Thrown error),
         b\<lparr>localStorage := (localStorage b)(''auth_token'' := None),
           location_href := Some ''/login''\<rparr>)) \<and>
    (optProp response ''status'' \<noteq> Num 401 \<longrightarrow>
      responseRejected error b = (Inl (Thrown error), b))"
  using assms by (simp add: responseRejected_def removeItem_def)

theorem response_interceptor_401_witness:
  "getProp (sampleError 401) ''response'' = Inr (Obj [(''status'', Num 401), (''data'', Null)]) \<and>
   optProp (Obj [(''status'', Num 401), (''data'', Null)]) ''status'' = Num 401 \<and>
   responseRejected (sampleError 401) sampleBrowser =
     (Inl (Thrown (sampleError 401)),
      \<lparr>localStorage = [''theme'' \<mapsto> ''dark''], location_href = Some ''/login''\<rparr>) \<and>
   getProp (sampleError 500) ''response'' = Inr (Obj [(''status'', Num 500), (''data'', Null)]) \<and>
   optProp (Obj [(''status'', Num 500), (''data'', Null)]) ''status'' \<noteq> Num 401 \<and>
   responseRejected (sampleError 500) sampleBrowser = (Inl (Thrown (sampleError 500)), sampleBrowser)"
proof -
  have g4: "getProp (sampleError 401) ''response'' =
      Inr (Obj [(''status'', Num 401), (''data'', Null)])"
    and g5: "getProp (sampleError 500) ''response'' =
      Inr (Obj [(''status'', Num 500), (''data'', Null)])"
    by (simp_all add: sampleError_def getProp_def nullish_def)
  have s4: "optProp (Obj [(''status'', Num 401), (''data'', Null)]) ''status'' = Num 401"
    and s5: "optProp (Obj [(''status'', Num 500), (''data'', Null)]) ''status'' \<noteq> Num 401"
    by (simp_all add: optProp_def nullish_def)
  have store: "sampleBrowser\<lparr>localStorage := (localStorage sampleBrowser)(''auth_token'' := None),
           location_href := Some ''/login''\<rparr> =
      \<lparr>localStorage = [''theme'' \<mapsto> ''dark''], location_href = Some ''/login''\<rparr>"
    by (auto simp: sampleBrowser_def)
  from response_interceptor_401 [OF g4, of sampleBrowser]
    response_interceptor_401 [OF g5, of sampleBrowser] g4 g5 s4 s5 store
  show ?thesis by simp
qed

end
